theory Spec2Isabelle
  imports Complex_Main
begin

section \<open>Data model (src/models/schemas.py)\<close>

text \<open>
  Python floats are modelled by the real numbers they denote, so every comparison with
  a threshold is exact. Python \<open>str\<close> is modelled by \<open>string\<close>, one \<open>char\<close> per
  code point below 256 (Latin-1), which covers every literal of the source. Fields of
  the pydantic models that none of the modelled functions reads are left out.
\<close>

datatype RiskDecision = APPROVE | REVIEW | REJECT

datatype QualityStatus = APPROVED | REJECTED

fun decision_value :: "RiskDecision \<Rightarrow> string" where
  "decision_value APPROVE = ''approve''"
| "decision_value REVIEW = ''review''"
| "decision_value REJECT = ''reject''"

fun status_value :: "QualityStatus \<Rightarrow> string" where
  "status_value APPROVED = ''approved''"
| "status_value REJECTED = ''rejected''"

subsection \<open>Python built-ins used by the agents\<close>

text \<open>
  \<open>str.lower\<close> on Latin-1: the upper-case letters are A-Z and the code points
  192-222 except the multiplication sign 215, each 32 below its lower-case letter.
\<close>

definition lower_char :: "char \<Rightarrow> char" where
  "lower_char c =
     (let n = (of_char c :: nat) in
      if (65 \<le> n \<and> n \<le> 90) \<or> (192 \<le> n \<and> n \<le> 222 \<and> n \<noteq> 215)
      then char_of (n + 32) else c)"

definition lower :: "string \<Rightarrow> string" where
  "lower s = map lower_char s"

fun startswith :: "string \<Rightarrow> string \<Rightarrow> bool" where
  "startswith s [] = True"
| "startswith [] (k # ks) = False"
| "startswith (c # s) (k # ks) = (c = k \<and> startswith s ks)"

text \<open>\<open>py_in kw s\<close> is Python's \<open>kw in s\<close> on strings: \<open>kw\<close> occurs in \<open>s\<close>.\<close>

fun py_in :: "string \<Rightarrow> string \<Rightarrow> bool" where
  "py_in kw [] = (kw = [])"
| "py_in kw (c # s) = (startswith (c # s) kw \<or> py_in kw s)"

text \<open>\<open>str(n)\<close> for a non-negative integer.\<close>

fun str_nat :: "nat \<Rightarrow> string" where
  "str_nat n =
     (if n < 10 then [char_of (48 + n)]
      else str_nat (n div 10) @ [char_of (48 + n mod 10)])"

declare str_nat.simps [simp del]

text \<open>
  \<open>str.isdigit\<close> on Latin-1: the digits 0-9 and the superscripts two, three and one
  (code points 178, 179 and 185).
\<close>

definition isdigit :: "char \<Rightarrow> bool" where
  "isdigit c =
     (let n = (of_char c :: nat) in (48 \<le> n \<and> n \<le> 57) \<or> n = 178 \<or> n = 179 \<or> n = 185)"

text \<open>\<open>str(i)\<close> for an integer, and \<open>sep.join(xs)\<close>.\<close>

definition str_int :: "int \<Rightarrow> string" where
  "str_int i = (if i < 0 then CHR ''-'' # str_nat (nat (- i)) else str_nat (nat i))"

fun join :: "string \<Rightarrow> string list \<Rightarrow> string" where
  "join sep [] = []"
| "join sep [x] = x"
| "join sep (x # y # ys) = x @ sep @ join sep (y # ys)"

text \<open>
  Formatting a float inside an f-string is Python's own: \<open>fmt None x\<close> stands for
  \<open>f"{x}"\<close> and \<open>fmt (Some n) x\<close> for \<open>f"{x:.nf}"\<close>. The function is a parameter of
  every scorer, so each result holds for whatever digits Python prints.
\<close>

type_synonym fmt = "nat option \<Rightarrow> real \<Rightarrow> string"

text \<open>An optional string inside an f-string: \<open>None\<close> prints as the word None.\<close>

definition fmt_opt_str :: "string option \<Rightarrow> string" where
  "fmt_opt_str x = (case x of None \<Rightarrow> ''None'' | Some s \<Rightarrow> s)"

text \<open>Truthiness of an optional float: \<open>None\<close> and zero are false.\<close>

definition truthy :: "real option \<Rightarrow> bool" where
  "truthy x = (case x of None \<Rightarrow> False | Some v \<Rightarrow> v \<noteq> 0)"

subsection \<open>Records\<close>

record FinancialKPI =
  revenue :: "real option"
  net_profit :: "real option"
  current_assets :: "real option"
  current_liabilities :: "real option"
  debt_to_equity :: "real option"
  roa :: "real option"

record DocumentAnalysis =
  financial_kpis :: "FinancialKPI list"
  confidence_score :: real

text \<open>
  \<open>company_cnpj\<close> is the field \<open>cnpj\<close> of \<open>CompanyData\<close> (the state has a field of the
  same name). A \<open>datetime\<close> is its number of microseconds since a fixed epoch.
\<close>

record CompanyData =
  company_cnpj :: string
  corporate_name :: string
  trade_name :: "string option"
  registration_date :: "int option"
  legal_situation :: "string option"

record WebSearchResult =
  url :: string
  content :: string

record RiskAnalysis =
  financial_health_score :: real
  non_financial_risk_score :: real
  overall_risk_score :: real
  positive_factors :: "string list"
  negative_factors :: "string list"
  recommendation :: RiskDecision
  analysis_text :: string
  confidence_level :: real

text \<open>
  The values a consistency check can hold: the checks are built with \<open>and\<close>/\<open>or\<close>
  chains, which return an operand, so beside a bool a check can be \<open>None\<close> or a string.
\<close>

datatype pyval = PBool bool | PNone | PStr string

fun truth :: "pyval \<Rightarrow> bool" where
  "truth (PBool b) = b"
| "truth PNone = False"
| "truth (PStr s) = (s \<noteq> [])"

record QualityValidation =
  status :: QualityStatus
  consistency_checks :: "(string \<times> pyval) list"
  feedback :: "string option"
  validation_notes :: "string list"

record AgentState =
  request_id :: string
  cnpj :: string
  company_data :: "CompanyData option"
  web_search_results :: "WebSearchResult list"
  document_analysis :: "DocumentAnalysis list"
  risk_analysis :: "RiskAnalysis option"
  quality_validation :: "QualityValidation option"
  retry_count :: int
  max_retries :: int
  processing_notes :: "string list"

text \<open>The pair of factor lists a scorer returns beside its score.\<close>

record factors =
  positive :: "string list"
  negative :: "string list"

section \<open>Recommendation Resolver (src/agents/risk_analyst.py)\<close>

text \<open>
  \<open>_determine_recommendation(overall_score, financial_score, non_financial_score)\<close>:
  the two critical floors first, then the thresholds on the overall score.
\<close>

definition determine_recommendation :: "real \<Rightarrow> real \<Rightarrow> real \<Rightarrow> RiskDecision" where
  "determine_recommendation overall_score financial_score non_financial_score =
     (if financial_score \<le> 2.0 then REJECT
      else if non_financial_score \<le> 3.0 then REJECT
      else if overall_score \<ge> 7.5 then APPROVE
      else if overall_score \<ge> 5.5 then REVIEW
      else REJECT)"

section \<open>Financial Health Scorer (src/agents/risk_analyst.py)\<close>

text \<open>The table \<open>self.financial_thresholds\<close> of \<open>RiskAnalystAgent.__init__\<close>.\<close>

definition financial_thresholds :: "(string \<times> (string \<times> real) list) list" where
  "financial_thresholds =
     [(''excellent'', [(''roa'', 15), (''roe'', 20), (''debt_to_equity'', 0.5)]),
      (''good'', [(''roa'', 10), (''roe'', 15), (''debt_to_equity'', 1.0)]),
      (''acceptable'', [(''roa'', 5), (''roe'', 10), (''debt_to_equity'', 2.0)]),
      (''poor'', [(''roa'', 0), (''roe'', 0), (''debt_to_equity'', 3.0)])]"

text \<open>
  \<open>self.financial_thresholds[level][key]\<close>. Every lookup of the source uses literal
  keys of the table, so the default is never reached.
\<close>

definition threshold :: "string \<Rightarrow> string \<Rightarrow> real" where
  "threshold level key =
     (case map_of financial_thresholds level of
        None \<Rightarrow> 0
      | Some d \<Rightarrow> (case map_of d key of None \<Rightarrow> 0 | Some v \<Rightarrow> v))"

text \<open>
  The running values \<open>score\<close>, \<open>positive_factors\<close>, \<open>negative_factors\<close> of
  \<open>_analyze_financial_health\<close>; each of its four blocks updates them in turn.
\<close>

type_synonym acc = "real \<times> string list \<times> string list"

definition analise_rentabilidade :: "fmt \<Rightarrow> FinancialKPI \<Rightarrow> acc \<Rightarrow> acc" where
  "analise_rentabilidade fmt latest_kpi a =
     (case a of (score, pos, neg) \<Rightarrow>
       (case roa latest_kpi of
          None \<Rightarrow> (score, pos, neg)
        | Some r \<Rightarrow>
            if r \<ge> threshold ''excellent'' ''roa''
            then (score + 1.5, pos @ [''Excelente ROA: '' @ fmt None r @ ''%''], neg)
            else if r \<ge> threshold ''good'' ''roa''
            then (score + 1.0, pos @ [''Bom ROA: '' @ fmt None r @ ''%''], neg)
            else if r \<ge> threshold ''acceptable'' ''roa''
            then (score + 0.5, pos @ [''ROA aceit'' @ [CHR 0xE1] @ ''vel: '' @ fmt None r @ ''%''], neg)
            else (score - 1.0, pos, neg @ [''ROA baixo: '' @ fmt None r @ ''%''])))"

definition analise_endividamento :: "fmt \<Rightarrow> FinancialKPI \<Rightarrow> acc \<Rightarrow> acc" where
  "analise_endividamento fmt latest_kpi a =
     (case a of (score, pos, neg) \<Rightarrow>
       (case debt_to_equity latest_kpi of
          None \<Rightarrow> (score, pos, neg)
        | Some d \<Rightarrow>
            if d \<le> threshold ''excellent'' ''debt_to_equity''
            then (score + 1.0, pos @ [''Baixo endividamento: '' @ fmt None d], neg)
            else if d \<le> threshold ''good'' ''debt_to_equity''
            then (score + 0.5, pos @ [''Endividamento controlado: '' @ fmt None d], neg)
            else if d \<le> threshold ''acceptable'' ''debt_to_equity''
            then (score, pos, neg)
            else (score - 1.5, pos, neg @ [''Alto endividamento: '' @ fmt None d])))"

definition analise_liquidez :: "fmt \<Rightarrow> FinancialKPI \<Rightarrow> acc \<Rightarrow> acc" where
  "analise_liquidez fmt latest_kpi a =
     (case a of (score, pos, neg) \<Rightarrow>
       if truthy (current_assets latest_kpi) \<and> truthy (current_liabilities latest_kpi)
       then
         (let current_ratio = the (current_assets latest_kpi) / the (current_liabilities latest_kpi)
          in if current_ratio \<ge> 1.5
             then (score + 0.8, pos @ [''Boa liquidez corrente: '' @ fmt (Some 2) current_ratio], neg)
             else if current_ratio \<ge> 1.0
             then (score + 0.3, pos @ [''Liquidez adequada: '' @ fmt (Some 2) current_ratio], neg)
             else (score - 1.0, pos, neg @ [''Liquidez insuficiente: '' @ fmt (Some 2) current_ratio]))
       else (score, pos, neg))"

definition analise_lucratividade :: "fmt \<Rightarrow> FinancialKPI \<Rightarrow> acc \<Rightarrow> acc" where
  "analise_lucratividade fmt latest_kpi a =
     (case a of (score, pos, neg) \<Rightarrow>
       if truthy (net_profit latest_kpi) \<and> truthy (revenue latest_kpi)
       then
         (let margin = (the (net_profit latest_kpi) / the (revenue latest_kpi)) * 100
          in if margin \<ge> 10
             then (score + 1.0, pos @ [''Alta margem l'' @ [CHR 0xED] @ ''quida: '' @ fmt (Some 1) margin @ ''%''], neg)
             else if margin \<ge> 5
             then (score + 0.5, pos @ [''Margem l'' @ [CHR 0xED] @ ''quida adequada: '' @ fmt (Some 1) margin @ ''%''], neg)
             else if margin < 0
             then (score - 1.5, pos, neg @ [''Empresa com preju'' @ [CHR 0xED] @ ''zo: '' @ fmt (Some 1) margin @ ''%''])
             else (score, pos, neg))
       else (score, pos, neg))"

text \<open>
  The four blocks applied to the neutral score 5.0, before the final clamp: the
  values of \<open>score\<close> and of the two lists when line 156 of the source is reached.
\<close>

definition financial_blocks :: "fmt \<Rightarrow> FinancialKPI \<Rightarrow> acc" where
  "financial_blocks fmt latest_kpi =
     analise_lucratividade fmt latest_kpi
       (analise_liquidez fmt latest_kpi
         (analise_endividamento fmt latest_kpi
           (analise_rentabilidade fmt latest_kpi (5.0, [], []))))"

definition analyze_financial_health :: "fmt \<Rightarrow> AgentState \<Rightarrow> real \<times> factors" where
  "analyze_financial_health fmt state =
     (if document_analysis state = []
      then (3.0, \<lparr>positive = [], negative = [''Nenhum documento financeiro analisado'']\<rparr>)
      else
        (let all_kpis = concat (map financial_kpis (document_analysis state))
         in if all_kpis = []
            then (3.0, \<lparr>positive = [],
                        negative = [''Nenhum KPI financeiro extra'' @ [CHR 0xED] @ ''do'']\<rparr>)
            else
              (case financial_blocks fmt (last all_kpis) of (score, pos, neg) \<Rightarrow>
                 (max 0 (min 10 score), \<lparr>positive = pos, negative = neg\<rparr>))))"

section \<open>Non-Financial Risk Scorer (src/agents/risk_analyst.py)\<close>

text \<open>\<open>(now - registration_date).days\<close>: whole days, rounded down.\<close>

definition days_between :: "int \<Rightarrow> int \<Rightarrow> int" where
  "days_between now reg = (now - reg) div 86400000000"

definition legal_keywords :: "string list" where
  "legal_keywords =
     [''processo'',
      ''execu'' @ [CHR 0xE7, CHR 0xE3] @ ''o'',
      ''fal'' @ [CHR 0xEA] @ ''ncia'',
      ''recupera'' @ [CHR 0xE7, CHR 0xE3] @ ''o judicial'',
      ''d'' @ [CHR 0xED] @ ''vida'']"

definition negative_keywords :: "string list" where
  "negative_keywords =
     [''fraude'', ''irregularidade'', ''multa'', ''penalidade'',
      ''investiga'' @ [CHR 0xE7, CHR 0xE3] @ ''o'']"

definition positive_keywords :: "string list" where
  "positive_keywords =
     [''pr'' @ [CHR 0xEA] @ ''mio'',
      ''expans'' @ [CHR 0xE3] @ ''o'',
      ''crescimento'',
      ''inova'' @ [CHR 0xE7, CHR 0xE3] @ ''o'',
      ''sucesso'']"

text \<open>
  One counter of the loop over \<open>state.web_search_results\<close>: the number of results
  whose lower-cased content holds at least one keyword of the list.
\<close>

definition count_mentions :: "string list \<Rightarrow> WebSearchResult list \<Rightarrow> nat" where
  "count_mentions keywords results =
     length (filter (\<lambda>result. list_ex (\<lambda>keyword. py_in keyword (lower (content result))) keywords)
               results)"

text \<open>The block on the registry record (\<open>if state.company_data:\<close>).\<close>

definition analise_cadastral :: "fmt \<Rightarrow> int \<Rightarrow> CompanyData option \<Rightarrow> acc \<Rightarrow> acc" where
  "analise_cadastral fmt now cd a =
     (case cd of
        None \<Rightarrow> a
      | Some company \<Rightarrow>
          (let a1 =
             (case a of (score, pos, neg) \<Rightarrow>
                if (case legal_situation company of
                      None \<Rightarrow> False
                    | Some ls \<Rightarrow> ls \<noteq> [] \<and> py_in ''ativa'' (lower ls))
                then (score,
                      pos @ [''Empresa com situa'' @ [CHR 0xE7, CHR 0xE3] @ ''o cadastral ativa''],
                      neg)
                else (score - 2.0, pos,
                      neg @ [''Situa'' @ [CHR 0xE7, CHR 0xE3] @ ''o cadastral irregular: ''
                             @ fmt_opt_str (legal_situation company)]))
           in case registration_date company of
                None \<Rightarrow> a1
              | Some reg \<Rightarrow>
                  (case a1 of (score, pos, neg) \<Rightarrow>
                    (let years_operating = real_of_int (days_between now reg) / 365
                     in if years_operating \<ge> 5
                        then (score + 1.0,
                              pos @ [''Empresa estabelecida: '' @ fmt (Some 1) years_operating
                                     @ '' anos de opera'' @ [CHR 0xE7, CHR 0xE3] @ ''o''],
                              neg)
                        else if years_operating \<ge> 2
                        then (score,
                              pos @ [''Empresa com '' @ fmt (Some 1) years_operating
                                     @ '' anos de opera'' @ [CHR 0xE7, CHR 0xE3] @ ''o''],
                              neg)
                        else (score - 0.5, pos,
                              neg @ [''Empresa recente: '' @ fmt (Some 1) years_operating
                                     @ '' anos''])))))"

text \<open>The block on the web results: the three counters, then the three adjustments.\<close>

definition analise_web :: "WebSearchResult list \<Rightarrow> acc \<Rightarrow> acc" where
  "analise_web results a =
     (let legal_issues = count_mentions legal_keywords results;
          negative_news = count_mentions negative_keywords results;
          positive_mentions = count_mentions positive_keywords results;
          a1 = (case a of (score, pos, neg) \<Rightarrow>
                  if legal_issues > 0
                  then (score - min (real legal_issues * 1.5) 3.0, pos,
                        neg @ [''Encontrados '' @ str_nat legal_issues
                               @ '' indicadores de quest'' @ [CHR 0xF5] @ ''es legais''])
                  else (score, pos, neg));
          a2 = (case a1 of (score, pos, neg) \<Rightarrow>
                  if negative_news > 0
                  then (score - min (real negative_news * 1.0) 2.0, pos,
                        neg @ [''Encontradas '' @ str_nat negative_news
                               @ '' men'' @ [CHR 0xE7, CHR 0xF5] @ ''es negativas na m''
                               @ [CHR 0xED] @ ''dia''])
                  else (score, pos, neg))
      in case a2 of (score, pos, neg) \<Rightarrow>
           if positive_mentions > 0
           then (score + min (real positive_mentions * 0.5) 1.0,
                 pos @ [''Encontradas '' @ str_nat positive_mentions
                        @ '' men'' @ [CHR 0xE7, CHR 0xF5] @ ''es positivas''],
                 neg)
           else (score, pos, neg))"

text \<open>Both blocks applied to the default score 7.0, before the final clamp.\<close>

definition non_financial_blocks :: "fmt \<Rightarrow> int \<Rightarrow> AgentState \<Rightarrow> acc" where
  "non_financial_blocks fmt now state =
     analise_web (web_search_results state)
       (analise_cadastral fmt now (company_data state) (7.0, [], []))"

definition analyze_non_financial_risks :: "fmt \<Rightarrow> int \<Rightarrow> AgentState \<Rightarrow> real \<times> factors" where
  "analyze_non_financial_risks fmt now state =
     (case non_financial_blocks fmt now state of (score, pos, neg) \<Rightarrow>
        (max 0 (min 10 score), \<lparr>positive = pos, negative = neg\<rparr>))"

section \<open>The agents' base class (src/agents/base_agent.py)\<close>

text \<open>
  What the stages need from outside the repository, sampled once per stage run: how
  Python prints a float and an exception, the clock, the registry and web-search
  clients, and the generation service, whose answer is \<open>None\<close> when the call raises.
  The services see the state, so their answers may differ from one call to the next.
\<close>

datatype error = ValidationError | TypeError | ExternalError string

record env =
  format_float :: fmt
  str_exc :: "error \<Rightarrow> string"
  clock :: int
  registry_lookup :: "AgentState \<Rightarrow> error + CompanyData option"
  web_search :: "AgentState \<Rightarrow> CompanyData \<Rightarrow> WebSearchResult list"
  narrative_service :: "AgentState \<Rightarrow> real \<Rightarrow> real \<Rightarrow> string option"
  feedback_service :: "AgentState \<Rightarrow> string list \<Rightarrow> string option"

definition add_processing_note :: "string \<Rightarrow> AgentState \<Rightarrow> string \<Rightarrow> AgentState" where
  "add_processing_note name state note =
     state\<lparr>processing_notes := processing_notes state @ [''['' @ name @ ''] '' @ note]\<rparr>"

definition should_retry :: "AgentState \<Rightarrow> bool" where
  "should_retry state = (retry_count state < max_retries state)"

definition increment_retry :: "string \<Rightarrow> AgentState \<Rightarrow> AgentState" where
  "increment_retry name state =
     (let s1 = state\<lparr>retry_count := retry_count state + 1\<rparr>
      in add_processing_note name s1
           (''Tentativa '' @ str_int (retry_count s1) @ ''/'' @ str_int (max_retries s1)))"

text \<open>
  The body of a stage's \<open>execute\<close>, inside its \<open>try\<close>. In each of the four agents a
  body that raises has so far only appended processing notes to the state, so a failure
  is the exception together with the notes at that point.
\<close>

type_synonym body = "AgentState \<Rightarrow> (error \<times> string list) + AgentState"

text \<open>
  \<open>execute\<close> runs the body and hands an exception to \<open>handle_error\<close>, which logs it and,
  while \<open>retry_count < max_retries\<close>, increments the counter and calls \<open>execute\<close> again;
  otherwise it re-raises, here \<open>Inl\<close> with the state as the caller finds it.
\<close>

function execute :: "string \<Rightarrow> (error \<Rightarrow> string) \<Rightarrow> body \<Rightarrow> AgentState \<Rightarrow> (error \<times> AgentState) + AgentState"
  and handle_error :: "string \<Rightarrow> (error \<Rightarrow> string) \<Rightarrow> body \<Rightarrow> AgentState \<Rightarrow> error \<Rightarrow> (error \<times> AgentState) + AgentState"
where
  "execute name se b state =
     (case b state of
        Inr s' \<Rightarrow> Inr s'
      | Inl (e, notes) \<Rightarrow> handle_error name se b (state\<lparr>processing_notes := notes\<rparr>) e)"
| "handle_error name se b state e =
     (let s1 = add_processing_note name state (''Erro no agente '' @ name @ '': '' @ se e)
      in if should_retry s1 then execute name se b (increment_retry name s1)
         else Inl (e, s1))"
  by pat_completeness auto
termination
  by (relation "measure (\<lambda>x. case x of
          Inl (name, se, b, state) \<Rightarrow> 2 * nat (max_retries state - retry_count state) + 2
        | Inr (name, se, b, state, e) \<Rightarrow> 2 * nat (max_retries state - retry_count state) + 1)")
     (auto simp: add_processing_note_def should_retry_def increment_retry_def Let_def)

declare execute.simps [simp del] handle_error.simps [simp del]

section \<open>Data Gatherer (src/agents/data_gatherer.py)\<close>




section \<open>Risk Analyst stage (src/agents/risk_analyst.py)\<close>

text \<open>
  \<open>_generate_detailed_analysis\<close>: the service's text, or the templated sentence when the
  call fails. The prompt is built from the state and the two scores, which the service
  is given here.
\<close>

definition generate_detailed_analysis :: "env \<Rightarrow> AgentState \<Rightarrow> real \<Rightarrow> real \<Rightarrow> string" where
  "generate_detailed_analysis ev state financial_score non_financial_score =
     (case narrative_service ev state financial_score non_financial_score of
        Some text \<Rightarrow> text
      | None \<Rightarrow>
          ''An'' @ [CHR 0xE1] @ ''lise autom'' @ [CHR 0xE1] @ ''tica: Score financeiro '' @ format_float ev (Some 1) financial_score
          @ ''/10, Score n'' @ [CHR 0xE3] @ ''o-financeiro '' @ format_float ev (Some 1) non_financial_score
          @ ''/10. Recomenda'' @ [CHR 0xE7, CHR 0xE3] @ ''o baseada nos indicadores calculados.'')"

definition calculate_confidence_level :: "AgentState \<Rightarrow> real" where
  "calculate_confidence_level state =
     (let docs = document_analysis state;
          c1 = (if company_data state \<noteq> None then 0.0 + 0.2 else 0.0);
          c2 = (if docs \<noteq> []
                then c1 + (sum_list (map confidence_score docs) / real (length docs)) * 0.5
                else c1);
          c3 = (if web_search_results state \<noteq> []
                then c2 + min (real (length (web_search_results state)) / 10) 0.2
                else c2);
          total_kpis = sum_list (map (\<lambda>doc. length (financial_kpis doc)) docs);
          c4 = (if total_kpis > 0 then c3 + min (real total_kpis / 5) 0.1 else c3)
      in min c4 1.0)"

text \<open>
  The constructor \<open>RiskAnalysis(...)\<close>: pydantic checks the bounds declared on the
  fields (\<open>ge=0, le=10\<close> on the scores, \<open>ge=0, le=1\<close> on the confidence) and raises.
\<close>

definition new_RiskAnalysis :: "RiskAnalysis \<Rightarrow> error + RiskAnalysis" where
  "new_RiskAnalysis ra =
     (if 0 \<le> financial_health_score ra \<and> financial_health_score ra \<le> 10
         \<and> 0 \<le> non_financial_risk_score ra \<and> non_financial_risk_score ra \<le> 10
         \<and> 0 \<le> overall_risk_score ra \<and> overall_risk_score ra \<le> 10
         \<and> 0 \<le> confidence_level ra \<and> confidence_level ra \<le> 1
      then Inr ra else Inl ValidationError)"

definition risk_analyst_body :: "env \<Rightarrow> body" where
  "risk_analyst_body ev state =
     (let s1 = add_processing_note ''RiskAnalyst'' state (''Iniciando an'' @ [CHR 0xE1] @ ''lise de risco consolidada'');
          fin = analyze_financial_health (format_float ev) s1;
          non_fin = analyze_non_financial_risks (format_float ev) (clock ev) s1;
          financial_score = fst fin;
          non_financial_score = fst non_fin;
          overall_score = (financial_score * 0.7) + (non_financial_score * 0.3);
          rec = determine_recommendation overall_score financial_score non_financial_score;
          text = generate_detailed_analysis ev s1 financial_score non_financial_score;
          confidence = calculate_confidence_level s1
      in case new_RiskAnalysis
                \<lparr>financial_health_score = financial_score,
                 non_financial_risk_score = non_financial_score,
                 overall_risk_score = overall_score,
                 positive_factors = positive (snd fin) @ positive (snd non_fin),
                 negative_factors = negative (snd fin) @ negative (snd non_fin),
                 recommendation = rec,
                 analysis_text = text,
                 confidence_level = confidence\<rparr> of
           Inl e \<Rightarrow> Inl (e, processing_notes s1)
         | Inr ra \<Rightarrow>
             Inr (add_processing_note ''RiskAnalyst'' (s1\<lparr>risk_analysis := Some ra\<rparr>)
                    (''An'' @ [CHR 0xE1] @ ''lise conclu'' @ [CHR 0xED] @ ''da: '' @ decision_value rec
                     @ '' (score: '' @ format_float ev (Some 1) overall_score @ '')'')))"

definition risk_analyst_execute :: "env \<Rightarrow> AgentState \<Rightarrow> (error \<times> AgentState) + AgentState" where
  "risk_analyst_execute ev state =
     execute ''RiskAnalyst'' (str_exc ev) (risk_analyst_body ev) state"

section \<open>Quality Gate (src/agents/quality_assurance.py)\<close>

definition check_recommendation_logic :: "AgentState \<Rightarrow> bool" where
  "check_recommendation_logic state =
     (case risk_analysis state of
        None \<Rightarrow> False
      | Some ra \<Rightarrow>
          if overall_risk_score ra \<ge> 7.5 \<and> decision_value (recommendation ra) \<noteq> ''approve''
          then False
          else if overall_risk_score ra \<le> 4.0 \<and> decision_value (recommendation ra) \<noteq> ''reject''
          then False
          else if financial_health_score ra \<le> 2.0 \<and> decision_value (recommendation ra) = ''approve''
          then False
          else if non_financial_risk_score ra \<le> 3.0 \<and> decision_value (recommendation ra) = ''approve''
          then False
          else True)"

definition check_factors_evidence :: "AgentState \<Rightarrow> bool" where
  "check_factors_evidence state =
     (case risk_analysis state of
        None \<Rightarrow> False
      | Some ra \<Rightarrow>
          (let financial_problems_mentioned =
                 list_ex (\<lambda>factor. py_in ''roa'' (lower factor)
                                   \<or> py_in ''endividamento'' (lower factor)
                                   \<or> py_in ''liquidez'' (lower factor))
                   (negative_factors ra)
           in if financial_problems_mentioned \<and> document_analysis state = []
              then False
              else
                (let legal_issues_mentioned =
                       list_ex (\<lambda>factor. py_in ''processo'' (lower factor)
                                         \<or> py_in ''legal'' (lower factor))
                         (negative_factors ra)
                 in if legal_issues_mentioned \<and> web_search_results state = []
                    then False
                    else True)))"

text \<open>
  \<open>_check_analysis_text_quality\<close> returns the value of an \<open>or\<close>/\<open>and\<close> chain: \<open>True\<close>
  when the tax identifier occurs in the text; otherwise \<open>None\<close> when there is no registry
  record, the empty corporate name when it is empty, and else whether the lower-cased
  name occurs in the lower-cased text.
\<close>

definition check_analysis_text_quality :: "AgentState \<Rightarrow> pyval" where
  "check_analysis_text_quality state =
     (case risk_analysis state of
        None \<Rightarrow> PBool False
      | Some ra \<Rightarrow>
          (let text = analysis_text ra
           in if text = [] then PBool False
              else if length text < 100 then PBool False
              else if count_list text (CHR ''.'') < 3 then PBool False
              else if py_in (cnpj state) text then PBool True
              else
                (case company_data state of
                   None \<Rightarrow> PNone
                 | Some company \<Rightarrow>
                     if corporate_name company = [] then PStr (corporate_name company)
                     else PBool (py_in (lower (corporate_name company)) (lower text)))))"

definition check_financial_data_availability :: "AgentState \<Rightarrow> bool" where
  "check_financial_data_availability state =
     (if document_analysis state = [] then False
      else list_ex (\<lambda>doc. length (financial_kpis doc) > 0) (document_analysis state))"

text \<open>The dictionary of checks, in the order in which the keys are inserted.\<close>

definition perform_consistency_checks :: "AgentState \<Rightarrow> (string \<times> pyval) list" where
  "perform_consistency_checks state =
     [(''company_data_available'', PBool (company_data state \<noteq> None)),
      (''cnpj_consistency'',
         PBool (case company_data state of
                  Some company \<Rightarrow>
                    filter isdigit (cnpj state) = filter isdigit (company_cnpj company)
                | None \<Rightarrow> False)),
      (''risk_analysis_present'', PBool (risk_analysis state \<noteq> None)),
      (''scores_in_valid_range'',
         PBool (case risk_analysis state of
                  Some ra \<Rightarrow>
                    0 \<le> financial_health_score ra \<and> financial_health_score ra \<le> 10
                    \<and> 0 \<le> non_financial_risk_score ra \<and> non_financial_risk_score ra \<le> 10
                    \<and> 0 \<le> overall_risk_score ra \<and> overall_risk_score ra \<le> 10
                | None \<Rightarrow> False)),
      (''recommendation_logic_consistent'', PBool (check_recommendation_logic state)),
      (''factors_have_evidence'', PBool (check_factors_evidence state)),
      (''analysis_text_quality'', check_analysis_text_quality state),
      (''financial_data_available'', PBool (check_financial_data_availability state))]"

text \<open>\<open>checks.get(check, default)\<close>.\<close>

definition get :: "(string \<times> pyval) list \<Rightarrow> string \<Rightarrow> bool \<Rightarrow> pyval" where
  "get checks check dflt =
     (case map_of checks check of None \<Rightarrow> PBool dflt | Some v \<Rightarrow> v)"

definition critical_checks :: "string list" where
  "critical_checks =
     [''risk_analysis_present'', ''scores_in_valid_range'', ''recommendation_logic_consistent'']"

definition important_checks :: "string list" where
  "important_checks =
     [''company_data_available'', ''cnpj_consistency'', ''factors_have_evidence'',
      ''analysis_text_quality'']"

definition determine_quality_status :: "(string \<times> pyval) list \<Rightarrow> QualityStatus" where
  "determine_quality_status checks =
     (if list_ex (\<lambda>check. \<not> truth (get checks check False)) critical_checks
      then REJECTED
      else
        (let failed_important =
               length (filter (\<lambda>check. \<not> truth (get checks check False)) important_checks)
         in if failed_important > length important_checks div 2 then REJECTED
            else APPROVED))"

definition generate_feedback :: "env \<Rightarrow> AgentState \<Rightarrow> (string \<times> pyval) list \<Rightarrow> string" where
  "generate_feedback ev state checks =
     (let failed_checks = map fst (filter (\<lambda>(check, passed). \<not> truth passed) checks)
      in case feedback_service ev state failed_checks of
           Some text \<Rightarrow> text
         | None \<Rightarrow> ''Verifica'' @ [CHR 0xE7, CHR 0xF5] @ ''es que falharam: '' @ join '', '' failed_checks @ ''. Favor revisar a an'' @ [CHR 0xE1] @ ''lise considerando estes pontos.'')"

text \<open>
  \<open>_generate_validation_notes\<close> starts with \<open>sum(checks.values())\<close>, which raises a
  \<open>TypeError\<close> on a value that is not a bool.
\<close>

definition is_bool :: "pyval \<Rightarrow> bool" where
  "is_bool v = (case v of PBool b \<Rightarrow> True | PNone \<Rightarrow> False | PStr s \<Rightarrow> False)"

definition generate_validation_notes :: "(string \<times> pyval) list \<Rightarrow> error + string list" where
  "generate_validation_notes checks =
     (if list_all is_bool (map snd checks)
      then
        (let passed_count = length (filter truth (map snd checks));
             total_count = length checks
         in Inr ([''Verifica'' @ [CHR 0xE7, CHR 0xF5] @ ''es de qualidade: '' @ str_nat passed_count @ ''/'' @ str_nat total_count @ '' aprovadas'']
                 @ (if \<not> truth (get checks ''company_data_available'' True)
                    then [''Dados da empresa n'' @ [CHR 0xE3] @ ''o dispon'' @ [CHR 0xED] @ ''veis - pode afetar qualidade da an'' @ [CHR 0xE1] @ ''lise''] else [])
                 @ (if \<not> truth (get checks ''financial_data_available'' True)
                    then [''Dados financeiros limitados - an'' @ [CHR 0xE1] @ ''lise baseada em informa'' @ [CHR 0xE7, CHR 0xF5] @ ''es p'' @ [CHR 0xFA] @ ''blicas''] else [])
                 @ (if truth (get checks ''recommendation_logic_consistent'' True)
                    then [''L'' @ [CHR 0xF3] @ ''gica de recomenda'' @ [CHR 0xE7, CHR 0xE3] @ ''o consistente com scores calculados''] else [])
                 @ (if truth (get checks ''analysis_text_quality'' True)
                    then [''Qualidade do texto de an'' @ [CHR 0xE1] @ ''lise aprovada''] else [])))
      else Inl TypeError)"

definition quality_assurance_body :: "env \<Rightarrow> body" where
  "quality_assurance_body ev state =
     (let s1 = add_processing_note ''QualityAssurance'' state (''Iniciando valida'' @ [CHR 0xE7, CHR 0xE3] @ ''o de qualidade'')
      in if risk_analysis s1 = None
         then Inr (add_processing_note ''QualityAssurance'' s1 (''Nenhuma an'' @ [CHR 0xE1] @ ''lise de risco encontrada para validar''))
         else
           (let consistency = perform_consistency_checks s1;
                st = determine_quality_status consistency;
                fb = (if st = REJECTED then Some (generate_feedback ev s1 consistency) else None)
            in case generate_validation_notes consistency of
                 Inl e \<Rightarrow> Inl (e, processing_notes s1)
               | Inr notes \<Rightarrow>
                   Inr (add_processing_note ''QualityAssurance''
                          (s1\<lparr>quality_validation :=
                                Some \<lparr>status = st, consistency_checks = consistency,
                                      feedback = fb, validation_notes = notes\<rparr>\<rparr>)
                          (''Valida'' @ [CHR 0xE7, CHR 0xE3] @ ''o conclu'' @ [CHR 0xED] @ ''da: '' @ status_value st))))"

definition quality_assurance_execute :: "env \<Rightarrow> AgentState \<Rightarrow> (error \<times> AgentState) + AgentState" where
  "quality_assurance_execute ev state =
     execute ''QualityAssurance'' (str_exc ev) (quality_assurance_body ev) state"

section \<open>Pipeline Orchestrator (src/graph/credit_analysis_graph.py)\<close>

definition risk_analyst_node :: "env \<Rightarrow> AgentState \<Rightarrow> (error \<times> AgentState) + AgentState" where
  "risk_analyst_node ev state =
     (let s1 =
            (case quality_validation state of
               None \<Rightarrow> state
             | Some qv \<Rightarrow>
                 (case feedback qv of
                    None \<Rightarrow> state
                  | Some fb \<Rightarrow>
                      if fb = [] then state
                      else state\<lparr>processing_notes := processing_notes state @ [''Feedback QA: '' @ fb],
                                 quality_validation := None\<rparr>))
      in risk_analyst_execute ev s1)"

definition quality_assurance_node :: "env \<Rightarrow> AgentState \<Rightarrow> (error \<times> AgentState) + AgentState" where
  "quality_assurance_node ev state = quality_assurance_execute ev state"

definition should_retry_analysis :: "AgentState \<Rightarrow> string" where
  "should_retry_analysis state =
     (case quality_validation state of
        None \<Rightarrow> ''finish''
      | Some qv \<Rightarrow>
          if status qv = APPROVED then ''finish''
          else if retry_count state < max_retries state then ''retry''
          else ''finish'')"

text \<open>
  The cycle of the compiled graph from the node \<open>risk_analyst\<close> on: the Scoring node, the
  edge to \<open>quality_assurance\<close>, then the conditional edge, back to \<open>risk_analyst\<close> on
  \<open>retry\<close> and to the end on \<open>finish\<close>. The graph engine is not part of the
  repository; it stops a run after a number of steps of its own, here the first
  argument, counted in passes through the cycle. The second argument gives the
  environment of each pass, the third counts the Scoring passes made so far. The result
  is how the run ended together with the number of Scoring passes.
\<close>

datatype outcome = Finished AgentState | Raised error AgentState | StepLimit AgentState

fun scoring_cycle :: "nat \<Rightarrow> (nat \<Rightarrow> env) \<Rightarrow> nat \<Rightarrow> AgentState \<Rightarrow> outcome \<times> nat" where
  "scoring_cycle 0 envs passes state = (StepLimit state, passes)"
| "scoring_cycle (Suc n) envs passes state =
     (case risk_analyst_node (envs passes) state of
        Inl (e, s') \<Rightarrow> (Raised e s', Suc passes)
      | Inr s1 \<Rightarrow>
          (case quality_assurance_node (envs passes) s1 of
             Inl (e, s') \<Rightarrow> (Raised e s', Suc passes)
           | Inr s2 \<Rightarrow>
               if should_retry_analysis s2 = ''retry''
               then scoring_cycle n envs (Suc passes) s2
               else (Finished s2, Suc passes)))"

section \<open>Relations used in the statements\<close>

text \<open>
  \<open>retried s t\<close>: the state \<open>t\<close> is \<open>s\<close> up to the processing notes and the retry
  counter, the two fields a stage's error handler writes.
\<close>

definition retried :: "AgentState \<Rightarrow> AgentState \<Rightarrow> bool" where
  "retried s t = (t = s\<lparr>processing_notes := processing_notes t, retry_count := retry_count t\<rparr>)"

text \<open>
  The value of \<open>failed_important\<close> in \<open>_determine_quality_status\<close> for the checks of a
  state: how many of the four important checks fail on it.
\<close>

definition failed_important :: "AgentState \<Rightarrow> nat" where
  "failed_important state =
     length (filter (\<lambda>check. \<not> truth (get (perform_consistency_checks state) check False))
               important_checks)"

section \<open>Sample inputs for the closed examples\<close>

text \<open>
  The state and the assessment that the repository's tests build (tests/conftest.py,
  tests/test_agents.py): a fresh state for a tax identifier, and an assessment with
  given scores and recommendation, no factors and a short text.
\<close>

definition sample_state :: AgentState where
  "sample_state =
     \<lparr>request_id = ''test-request-123'', cnpj = ''11222333000181'', company_data = None,
      web_search_results = [], document_analysis = [], risk_analysis = None,
      quality_validation = None, retry_count = 0, max_retries = 3, processing_notes = []\<rparr>"

definition sample_assessment :: "real \<Rightarrow> real \<Rightarrow> real \<Rightarrow> RiskDecision \<Rightarrow> RiskAnalysis" where
  "sample_assessment fin nonfin overall rec =
     \<lparr>financial_health_score = fin, non_financial_risk_score = nonfin,
      overall_risk_score = overall, positive_factors = [], negative_factors = [],
      recommendation = rec, analysis_text = ''Test analysis'', confidence_level = 0.8\<rparr>"

text \<open>
  A dictionary of checks in which the critical checks pass and the four important
  checks have the given outcomes.
\<close>

definition checks_with :: "bool \<Rightarrow> bool \<Rightarrow> bool \<Rightarrow> bool \<Rightarrow> (string \<times> pyval) list" where
  "checks_with company cnpj_ok evidence text_ok =
     [(''company_data_available'', PBool company), (''cnpj_consistency'', PBool cnpj_ok),
      (''risk_analysis_present'', PBool True), (''scores_in_valid_range'', PBool True),
      (''recommendation_logic_consistent'', PBool True),
      (''factors_have_evidence'', PBool evidence), (''analysis_text_quality'', PBool text_ok),
      (''financial_data_available'', PBool False)]"

text \<open>
  A printer of floats for the closed examples: \<open>fixed n x\<close> is the decimal expansion of
  \<open>x\<close> rounded half-even to \<open>n\<close> places, and a float printed without a precision
  shows the fewest places, at least one, that represent it. No result below depends on
  what it prints.
\<close>

definition round_half_even :: "real \<Rightarrow> int" where
  "round_half_even x =
     (let f = \<lfloor>x\<rfloor>; r = x - of_int f
      in if r < 1/2 then f else if r > 1/2 then f + 1 else if even f then f else f + 1)"

definition fixed :: "nat \<Rightarrow> real \<Rightarrow> string" where
  "fixed n x =
     (let m = nat (round_half_even (\<bar>x\<bar> * 10 ^ n));
          frac = str_nat (m mod 10 ^ n)
      in (if x < 0 then ''-'' else [])
         @ str_nat (m div 10 ^ n)
         @ (if n = 0 then [] else ''.'' @ replicate (n - length frac) (CHR ''0'') @ frac))"

definition decimal_fmt :: fmt where
  "decimal_fmt prec x =
     (case prec of
        Some n \<Rightarrow> fixed n x
      | None \<Rightarrow>
          (case find (\<lambda>d. of_int \<lfloor>x * 10 ^ d\<rfloor> = x * 10 ^ d) [1..<17] of
             Some d \<Rightarrow> fixed d x
           | None \<Rightarrow> fixed 17 x))"

text \<open>
  An environment in which the registry knows no company and the generation service is
  down, so that every text is the stage's own fallback.
\<close>

definition offline_env :: env where
  "offline_env =
     \<lparr>format_float = decimal_fmt,
      str_exc = (\<lambda>e. case e of ValidationError \<Rightarrow> ''validation error''
                              | TypeError \<Rightarrow> ''unsupported operand type(s)''
                              | ExternalError msg \<Rightarrow> msg),
      clock = 0,
      registry_lookup = (\<lambda>state. Inr None),
      web_search = (\<lambda>state company. []),
      narrative_service = (\<lambda>state financial_score non_financial_score. None),
      feedback_service = (\<lambda>state failed_checks. None)\<rparr>"

text \<open>
  A snapshot that carries only current assets and current liabilities, and the fresh
  state extended by one analysed document holding one snapshot.
\<close>

definition liquidity_kpi :: "real \<Rightarrow> real \<Rightarrow> FinancialKPI" where
  "liquidity_kpi assets liabilities =
     \<lparr>revenue = None, net_profit = None, current_assets = Some assets,
      current_liabilities = Some liabilities, debt_to_equity = None, roa = None\<rparr>"

definition state_with_kpi :: "FinancialKPI \<Rightarrow> AgentState" where
  "state_with_kpi k =
     sample_state\<lparr>document_analysis := [\<lparr>financial_kpis = [k], confidence_score = 0.8\<rparr>]\<rparr>"

text \<open>A snapshot with every indicator in its best band.\<close>

definition best_kpi :: FinancialKPI where
  "best_kpi =
     \<lparr>revenue = Some 1000, net_profit = Some 200, current_assets = Some 300,
      current_liabilities = Some 100, debt_to_equity = Some 0.4, roa = Some 20\<rparr>"

text \<open>
  A registry record with status ATIVA, registered at the epoch; read 2191 days later
  (six calendar years with one leap day) it is six years old.
\<close>

definition six_year_company :: CompanyData where
  "six_year_company =
     \<lparr>company_cnpj = ''11222333000181'', corporate_name = ''Empresa Teste LTDA'',
      trade_name = None, registration_date = Some 0, legal_situation = Some ''ATIVA''\<rparr>"

text \<open>
  The offline environment with a generation service that answers the narrative request
  with a short sentence.
\<close>

definition terse_env :: env where
  "terse_env = offline_env\<lparr>narrative_service := (\<lambda>state fs nfs. Some ''Sem dados.'')\<rparr>"



text \<open>
  The assessment the Scoring stage stores for the fresh state (no registry record, no
  documents), with a given narrative, and the templated narrative it writes there when
  the generation service is down.
\<close>

definition narrated :: "string \<Rightarrow> RiskAnalysis" where
  "narrated text =
     \<lparr>financial_health_score = 3.0, non_financial_risk_score = 7.0,
      overall_risk_score = 4.2, positive_factors = [],
      negative_factors = [''Nenhum documento financeiro analisado''],
      recommendation = REJECT, analysis_text = text, confidence_level = 0.0\<rparr>"

definition fallback_text :: string where
  "fallback_text =
     ''An'' @ [CHR 0xE1] @ ''lise autom'' @ [CHR 0xE1]
     @ ''tica: Score financeiro 3.0/10, Score n'' @ [CHR 0xE3]
     @ ''o-financeiro 7.0/10. Recomenda'' @ [CHR 0xE7, CHR 0xE3]
     @ ''o baseada nos indicadores calculados.''"

section \<open>Verified properties\<close>

text \<open>
  Claim C2. The Recommendation Resolver is a function of the three scores alone and
  evaluates its rules in fixed precedence, the first match winning: Reject when
  financial is at most 2.0; else Reject when non-financial is at most 3.0; else Approve
  when overall is at least 7.5; else Review when overall is at least 5.5; else Reject.
  The four sample triples (financial, non-financial, overall) = (1, 9, 9), (7, 8, 7.6),
  (6, 6, 6) and (4, 4, 4) give Reject, Approve, Review and Reject.
\<close>

theorem C2_resolver_precedence:
  "determine_recommendation overall financial non_financial =
     (if financial \<le> 2.0 then REJECT
      else if non_financial \<le> 3.0 then REJECT
      else if overall \<ge> 7.5 then APPROVE
      else if overall \<ge> 5.5 then REVIEW
      else REJECT)
   \<and> determine_recommendation 9.0 1.0 9.0 = REJECT
   \<and> determine_recommendation 7.6 7.0 8.0 = APPROVE
   \<and> determine_recommendation 6.0 6.0 6.0 = REVIEW
   \<and> determine_recommendation 4.0 4.0 4.0 = REJECT"
  by (simp add: determine_recommendation_def)

theorem C2_resolver_precedence_witness:
  "determine_recommendation 9.0 1.0 9.0 = REJECT
   \<and> determine_recommendation 7.4 2.5 3.0 = REJECT
   \<and> determine_recommendation 7.5 7.5 7.5 = APPROVE"
  using C2_resolver_precedence [of "9.0" "1.0" "9.0"]
    C2_resolver_precedence [of "7.4" "2.5" "3.0"]
    C2_resolver_precedence [of "7.5" "7.5" "7.5"]
  by simp

subsection \<open>Recommendation consistency check\<close>

lemma decision_value_eq [simp]:
  "(decision_value r = ''approve'') = (r = APPROVE)"
  "(decision_value r = ''reject'') = (r = REJECT)"
  "(decision_value r = ''review'') = (r = REVIEW)"
  by (cases r; simp)+

text \<open>
  Claim C3, as amended. The claim reads the check as a re-derivation: it passes exactly
  when the stored recommendation is the Resolver's. The check has four rules of its own
  instead. For a state carrying an assessment it fails exactly when overall is at least
  7.5 and the recommendation is not Approve, or overall is at most 4.0 and the
  recommendation is not Reject, or the recommendation is Approve although financial is
  at most 2.0 or non-financial is at most 3.0. A stored recommendation equal to the
  Resolver's passes whenever overall is below 7.5 or both sub-scores are above their
  floors.
\<close>

theorem C3_consistency_rules:
  assumes "risk_analysis state = Some ra"
  shows "check_recommendation_logic state =
           (\<not> (overall_risk_score ra \<ge> 7.5 \<and> recommendation ra \<noteq> APPROVE)
            \<and> \<not> (overall_risk_score ra \<le> 4.0 \<and> recommendation ra \<noteq> REJECT)
            \<and> \<not> (financial_health_score ra \<le> 2.0 \<and> recommendation ra = APPROVE)
            \<and> \<not> (non_financial_risk_score ra \<le> 3.0 \<and> recommendation ra = APPROVE))
         \<and> (recommendation ra = determine_recommendation (overall_risk_score ra)
                 (financial_health_score ra) (non_financial_risk_score ra)
              \<longrightarrow> overall_risk_score ra < 7.5
                    \<or> (financial_health_score ra > 2.0 \<and> non_financial_risk_score ra > 3.0)
              \<longrightarrow> check_recommendation_logic state)"
  using assms
  by (auto simp: check_recommendation_logic_def determine_recommendation_def split: if_splits)

text \<open>
  The check at the tests' inconsistent assessment (overall 8.5 stored with Reject) and
  at a consistent one (all scores 6.0 stored with Review).
\<close>

theorem C3_consistency_rules_witness:
  "check_recommendation_logic
     (sample_state\<lparr>risk_analysis := Some (sample_assessment 6.0 6.0 6.0 REVIEW)\<rparr>)
   \<and> \<not> check_recommendation_logic
         (sample_state\<lparr>risk_analysis := Some (sample_assessment 8.0 9.0 8.5 REJECT)\<rparr>)"
  using C3_consistency_rules
      [of "sample_state\<lparr>risk_analysis := Some (sample_assessment 6.0 6.0 6.0 REVIEW)\<rparr>"
          "sample_assessment 6.0 6.0 6.0 REVIEW"]
    C3_consistency_rules
      [of "sample_state\<lparr>risk_analysis := Some (sample_assessment 8.0 9.0 8.5 REJECT)\<rparr>"
          "sample_assessment 8.0 9.0 8.5 REJECT"]
  by (simp add: sample_assessment_def determine_recommendation_def)

text \<open>
  The claim as stated fails in both directions. With all three scores 5.0 the Resolver
  gives Reject, yet a stored Approve passes the check. With financial 10.0,
  non-financial 3.0 and overall 7.9 the Resolver gives Reject, and the stored Reject
  fails the check.
\<close>

theorem C3_rederivation_counterexample:
  "check_recommendation_logic
     (sample_state\<lparr>risk_analysis := Some (sample_assessment 5.0 5.0 5.0 APPROVE)\<rparr>)
   \<and> determine_recommendation 5.0 5.0 5.0 = REJECT
   \<and> \<not> check_recommendation_logic
         (sample_state\<lparr>risk_analysis := Some (sample_assessment 10.0 3.0 7.9 REJECT)\<rparr>)
   \<and> determine_recommendation 7.9 10.0 3.0 = REJECT"
  by (simp add: check_recommendation_logic_def determine_recommendation_def
      sample_state_def sample_assessment_def)

subsection \<open>Status resolution of the Quality Gate\<close>

lemma get_simps:
  "get [] k d = PBool d"
  "get ((k', v) # cs) k d = (if k' = k then v else get cs k d)"
  by (simp_all add: get_def)

text \<open>
  \<open>_determine_quality_status\<close> on a dictionary whose three critical checks pass: Rejected
  exactly when three or four of the four important checks fail.
\<close>

lemma status_majority:
  assumes "truth (get checks ''risk_analysis_present'' False)"
    and "truth (get checks ''scores_in_valid_range'' False)"
    and "truth (get checks ''recommendation_logic_consistent'' False)"
  shows "determine_quality_status checks =
           (if 2 < length (filter (\<lambda>check. \<not> truth (get checks check False)) important_checks)
            then REJECTED else APPROVED)"
proof -
  have "length important_checks div 2 = 2" by (simp add: important_checks_def)
  then show ?thesis
    using assms by (simp add: determine_quality_status_def critical_checks_def Let_def)
qed

lemma status_majority_boundary:
  "determine_quality_status (checks_with False False True True) = APPROVED
   \<and> determine_quality_status (checks_with False False False True) = REJECTED
   \<and> determine_quality_status (checks_with False False False False) = REJECTED"
  using status_majority [of "checks_with False False True True"]
    status_majority [of "checks_with False False False True"]
    status_majority [of "checks_with False False False False"]
  by (simp add: checks_with_def get_simps important_checks_def)

subsection \<open>Stage-local retries\<close>

text \<open>
  A stage that returns a state has run its body to the end on a state that differs from
  the one it was given at most in the processing notes and the retry counter.
\<close>

lemma retried_refl: "retried s s" by (simp add: retried_def)

lemma retried_fields:
  "retried s t \<Longrightarrow> cnpj t = cnpj s \<and> company_data t = company_data s
     \<and> web_search_results t = web_search_results s \<and> document_analysis t = document_analysis s
     \<and> risk_analysis t = risk_analysis s \<and> quality_validation t = quality_validation s
     \<and> max_retries t = max_retries s \<and> request_id t = request_id s"
proof -
  assume "retried s t"
  then have "t = s\<lparr>processing_notes := processing_notes t, retry_count := retry_count t\<rparr>"
    by (simp add: retried_def)
  then obtain ns c where t: "t = s\<lparr>processing_notes := ns, retry_count := c\<rparr>" by blast
  show ?thesis by (simp add: t)
qed

lemma execute_Inr_body:
  "execute name se b state = Inr s' \<Longrightarrow> \<exists>st. b st = Inr s' \<and> retried state st"
  "handle_error name se b state e = Inr s' \<Longrightarrow> \<exists>st. b st = Inr s' \<and> retried state st"
proof (induction name se b state and name se b state e rule: execute_handle_error.induct)
  case (1 name se b state)
  show ?case
  proof (cases "b state")
    case (Inr s1)
    with 1(2) have "s1 = s'" by (simp add: execute.simps)
    with Inr show ?thesis using retried_refl by blast
  next
    case (Inl p)
    obtain e ns where p: "p = (e, ns)" by (cases p)
    from 1(2) Inl p have "handle_error name se b (state\<lparr>processing_notes := ns\<rparr>) e = Inr s'"
      by (simp add: execute.simps)
    from 1(1)[OF Inl[unfolded p] refl this]
    obtain st where "b st = Inr s'" "retried (state\<lparr>processing_notes := ns\<rparr>) st" by blast
    then show ?thesis by (auto simp: retried_def)
  qed
next
  case (2 name se b state e)
  let ?s1 = "add_processing_note name state (''Erro no agente '' @ name @ '': '' @ se e)"
  from 2(2) have sr: "should_retry ?s1"
    by (auto simp: handle_error.simps Let_def split: if_splits)
  with 2(2) have "execute name se b (increment_retry name ?s1) = Inr s'"
    by (simp add: handle_error.simps Let_def)
  from 2(1)[OF refl sr this]
  obtain st where "b st = Inr s'" "retried (increment_retry name ?s1) st" by blast
  then show ?case
    by (auto simp: retried_def increment_retry_def add_processing_note_def Let_def)
qed

subsection \<open>The Quality Gate's report\<close>

lemma retried_checks:
  "retried s t \<Longrightarrow> perform_consistency_checks t = perform_consistency_checks s"
  by (drule retried_fields)
     (simp add: perform_consistency_checks_def check_recommendation_logic_def
       check_factors_evidence_def check_analysis_text_quality_def
       check_financial_data_availability_def Let_def
       cong: option.case_cong if_cong)

lemma note_fields [simp]:
  "cnpj (add_processing_note n s x) = cnpj s"
  "company_data (add_processing_note n s x) = company_data s"
  "web_search_results (add_processing_note n s x) = web_search_results s"
  "document_analysis (add_processing_note n s x) = document_analysis s"
  "risk_analysis (add_processing_note n s x) = risk_analysis s"
  "quality_validation (add_processing_note n s x) = quality_validation s"
  "retry_count (add_processing_note n s x) = retry_count s"
  "max_retries (add_processing_note n s x) = max_retries s"
  "request_id (add_processing_note n s x) = request_id s"
  "processing_notes (add_processing_note n s x) = processing_notes s @ [''['' @ n @ ''] '' @ x]"
  by (simp_all add: add_processing_note_def)

lemma note_retried: "retried s (add_processing_note n s x)"
  by (simp add: retried_def add_processing_note_def)

lemma critical_fail_rejected:
  "\<not> truth (get checks ''risk_analysis_present'' False)
   \<or> \<not> truth (get checks ''scores_in_valid_range'' False)
   \<or> \<not> truth (get checks ''recommendation_logic_consistent'' False)
   \<Longrightarrow> determine_quality_status checks = REJECTED"
  by (auto simp: determine_quality_status_def critical_checks_def)

lemma qa_body_report:
  assumes "quality_assurance_body ev st = Inr s'" and "risk_analysis st \<noteq> None"
  shows "\<exists>qv. quality_validation s' = Some qv
            \<and> status qv = determine_quality_status (perform_consistency_checks st)
            \<and> consistency_checks qv = perform_consistency_checks st"
  using assms retried_checks[OF note_retried, of "''QualityAssurance''" st]
  by (auto simp: quality_assurance_body_def Let_def split: sum.splits if_splits)

lemma qa_body_no_assessment:
  assumes "risk_analysis st = None"
  shows "\<exists>s'. quality_assurance_body ev st = Inr s' \<and> quality_validation s' = quality_validation st
           \<and> risk_analysis s' = None \<and> retried st s'"
  using assms
  by (simp add: quality_assurance_body_def Let_def retried_def add_processing_note_def)

lemma checks_get:
  "get (perform_consistency_checks s) ''risk_analysis_present'' False = PBool (risk_analysis s \<noteq> None)"
  "get (perform_consistency_checks s) ''recommendation_logic_consistent'' False = PBool (check_recommendation_logic s)"
  "get (perform_consistency_checks s) ''scores_in_valid_range'' False =
     PBool (case risk_analysis s of
                  Some ra \<Rightarrow>
                    0 \<le> financial_health_score ra \<and> financial_health_score ra \<le> 10
                    \<and> 0 \<le> non_financial_risk_score ra \<and> non_financial_risk_score ra \<le> 10
                    \<and> 0 \<le> overall_risk_score ra \<and> overall_risk_score ra \<le> 10
                | None \<Rightarrow> False)"
  by (simp_all add: perform_consistency_checks_def get_simps)

lemma execute_body_Inr: "b state = Inr s' \<Longrightarrow> execute name se b state = Inr s'"
  by (simp add: execute.simps)

lemma checks_all_bool:
  "list_all is_bool (map snd (perform_consistency_checks s)) = is_bool (check_analysis_text_quality s)"
  by (simp add: perform_consistency_checks_def is_bool_def)

lemma qa_body_returns:
  assumes "risk_analysis st \<noteq> None" and "is_bool (check_analysis_text_quality st)"
  shows "\<exists>s'. quality_assurance_body ev st = Inr s'"
proof -
  let ?s1 = "add_processing_note ''QualityAssurance'' st
              (''Iniciando valida'' @ [CHR 0xE7, CHR 0xE3] @ ''o de qualidade'')"
  have "perform_consistency_checks ?s1 = perform_consistency_checks st"
    by (rule retried_checks[OF note_retried])
  then have "list_all is_bool (map snd (perform_consistency_checks ?s1))"
    using assms(2) by (simp add: checks_all_bool)
  then show ?thesis using assms(1)
    by (simp add: quality_assurance_body_def Let_def generate_validation_notes_def)
qed

text \<open>
  Claim C4, as amended. For a state carrying an assessment, the failure of the
  scores-in-range check or of the recommendation-consistency check makes the Quality
  Gate return a report with status Rejected, whatever the other checks give; this is
  shown for the states on which the narrative-quality check yields a bool, where the
  Gate does return a report. A state with no assessment gets no report at all: the Gate
  returns it with the quality report it came with.
\<close>

theorem C4_critical_failure_rejects:
  "(risk_analysis state = None \<longrightarrow>
      (\<exists>s'. quality_assurance_execute ev state = Inr s'
            \<and> quality_validation s' = quality_validation state))
   \<and> (\<forall>ra. risk_analysis state = Some ra
          \<longrightarrow> is_bool (check_analysis_text_quality state)
          \<longrightarrow> (\<not> (0 \<le> financial_health_score ra \<and> financial_health_score ra \<le> 10
                    \<and> 0 \<le> non_financial_risk_score ra \<and> non_financial_risk_score ra \<le> 10
                    \<and> 0 \<le> overall_risk_score ra \<and> overall_risk_score ra \<le> 10)
                \<or> \<not> check_recommendation_logic state)
          \<longrightarrow> (\<exists>s' qv. quality_assurance_execute ev state = Inr s'
                      \<and> quality_validation s' = Some qv \<and> status qv = REJECTED))"
proof (intro conjI impI allI)
  assume "risk_analysis state = None"
  from qa_body_no_assessment[OF this, of ev]
  obtain s' where "quality_assurance_body ev state = Inr s'"
    "quality_validation s' = quality_validation state" by blast
  then show "\<exists>s'. quality_assurance_execute ev state = Inr s'
            \<and> quality_validation s' = quality_validation state"
    by (auto simp: quality_assurance_execute_def execute_body_Inr)
next
  fix ra
  assume ra: "risk_analysis state = Some ra"
    and tb: "is_bool (check_analysis_text_quality state)"
    and crit: "\<not> (0 \<le> financial_health_score ra \<and> financial_health_score ra \<le> 10
                    \<and> 0 \<le> non_financial_risk_score ra \<and> non_financial_risk_score ra \<le> 10
                    \<and> 0 \<le> overall_risk_score ra \<and> overall_risk_score ra \<le> 10)
                \<or> \<not> check_recommendation_logic state"
  from ra have ne: "risk_analysis state \<noteq> None" by simp
  from qa_body_returns[OF ne tb, of ev]
  obtain s' where body: "quality_assurance_body ev state = Inr s'" by blast
  from qa_body_report[OF body ne]
  obtain qv where qv: "quality_validation s' = Some qv"
    "status qv = determine_quality_status (perform_consistency_checks state)" by blast
  have "determine_quality_status (perform_consistency_checks state) = REJECTED"
    using crit ra by (intro critical_fail_rejected) (auto simp: checks_get)
  with qv body show "\<exists>s' qv. quality_assurance_execute ev state = Inr s'
                      \<and> quality_validation s' = Some qv \<and> status qv = REJECTED"
    by (auto simp: quality_assurance_execute_def execute_body_Inr)
qed

text \<open>
  The tests' two states: the fresh state with no assessment, which comes back without a
  report, and the assessment with overall 8.5 stored with Reject, which is Rejected.
\<close>

lemma sample_text_quality:
  "check_analysis_text_quality (sample_state\<lparr>risk_analysis := Some (sample_assessment f n ov r)\<rparr>) = PBool False"
  by (simp add: check_analysis_text_quality_def sample_assessment_def)

theorem C4_critical_failure_rejects_witness:
  "(\<exists>s'. quality_assurance_execute offline_env sample_state = Inr s'
         \<and> quality_validation s' = None)
   \<and> (\<exists>s' qv. quality_assurance_execute offline_env
                  (sample_state\<lparr>risk_analysis := Some (sample_assessment 8.0 9.0 8.5 REJECT)\<rparr>) = Inr s'
              \<and> quality_validation s' = Some qv \<and> status qv = REJECTED)"
  using C4_critical_failure_rejects [of sample_state offline_env]
    C4_critical_failure_rejects
      [of "sample_state\<lparr>risk_analysis := Some (sample_assessment 8.0 9.0 8.5 REJECT)\<rparr>" offline_env]
  by (simp add: sample_text_quality is_bool_def check_recommendation_logic_def)
     (simp add: sample_state_def sample_assessment_def)

text \<open>
  The claim as stated fails on the state with no assessment: the Gate returns normally
  and the state has no quality report, so there is no Rejected report.
\<close>

theorem C4_no_assessment_counterexample:
  "\<not> isl (quality_assurance_execute offline_env sample_state)
   \<and> quality_validation (projr (quality_assurance_execute offline_env sample_state)) = None"
  by (simp add: quality_assurance_execute_def execute.simps quality_assurance_body_def
      Let_def sample_state_def add_processing_note_def)

subsection \<open>Financial Health Scorer\<close>

lemma threshold_values [simp]:
  "threshold ''excellent'' ''roa'' = 15"
  "threshold ''good'' ''roa'' = 10"
  "threshold ''acceptable'' ''roa'' = 5"
  "threshold ''excellent'' ''debt_to_equity'' = 0.5"
  "threshold ''good'' ''debt_to_equity'' = 1.0"
  "threshold ''acceptable'' ''debt_to_equity'' = 2.0"
  by (simp_all add: threshold_def financial_thresholds_def)

text \<open>
  Claim C6 asks for the deduction of 1.0 and the insufficient-liquidity factor whenever
  the ratio is below 1.0, also when current assets are 0 while current liabilities are
  present and nonzero. The block is guarded by the truthiness of both amounts, so zero
  current assets skip it: with assets 0 and liabilities 100 as the only indicators, the
  score stays at the neutral 5.0 and no factor is recorded.
\<close>

theorem C6_zero_assets_skipped:
  "analyze_financial_health fmt (state_with_kpi (liquidity_kpi 0 100))
     = (5.0, \<lparr>positive = [], negative = []\<rparr>)"
  by (simp add: analyze_financial_health_def state_with_kpi_def liquidity_kpi_def
      sample_state_def financial_blocks_def analise_rentabilidade_def
      analise_endividamento_def analise_liquidez_def analise_lucratividade_def truthy_def)

text \<open>With both amounts present and nonzero the adjustment is the one the claim gives.\<close>

lemma liquidez_applied:
  assumes "current_assets k = Some ca" "current_liabilities k = Some cl" "ca \<noteq> 0" "cl \<noteq> 0"
  shows "analise_liquidez fmt k (score, pos, neg) =
           (if ca / cl \<ge> 1.5
            then (score + 0.8, pos @ [''Boa liquidez corrente: '' @ fmt (Some 2) (ca / cl)], neg)
            else if ca / cl \<ge> 1.0
            then (score + 0.3, pos @ [''Liquidez adequada: '' @ fmt (Some 2) (ca / cl)], neg)
            else (score - 1.0, pos, neg @ [''Liquidez insuficiente: '' @ fmt (Some 2) (ca / cl)]))"
  using assms by (simp add: analise_liquidez_def truthy_def Let_def)

subsection \<open>Bounds on the scores\<close>

lemma rentabilidade_le:
  "fst (analise_rentabilidade fmt k (score, pos, neg)) \<le> score + 1.5"
  by (simp add: analise_rentabilidade_def split: option.split)

lemma endividamento_le:
  "fst (analise_endividamento fmt k (score, pos, neg)) \<le> score + 1.0"
  by (simp add: analise_endividamento_def split: option.split)

lemma liquidez_le:
  "fst (analise_liquidez fmt k (score, pos, neg)) \<le> score + 0.8"
  by (simp add: analise_liquidez_def Let_def)

lemma lucratividade_le:
  "fst (analise_lucratividade fmt k (score, pos, neg)) \<le> score + 1.0"
  by (simp add: analise_lucratividade_def Let_def)

lemma financial_blocks_le: "fst (financial_blocks fmt k) \<le> 9.3"
proof -
  obtain s1 p1 n1 where a1: "analise_rentabilidade fmt k (5, [], []) = (s1, p1, n1)"
    by (cases "analise_rentabilidade fmt k (5, [], [])")
  obtain s2 p2 n2 where a2: "analise_endividamento fmt k (s1, p1, n1) = (s2, p2, n2)"
    by (cases "analise_endividamento fmt k (s1, p1, n1)")
  obtain s3 p3 n3 where a3: "analise_liquidez fmt k (s2, p2, n2) = (s3, p3, n3)"
    by (cases "analise_liquidez fmt k (s2, p2, n2)")
  have "s1 \<le> 5 + 1.5" using rentabilidade_le[of fmt k 5 "[]" "[]"] a1 by simp
  moreover have "s2 \<le> s1 + 1.0" using endividamento_le[of fmt k s1 p1 n1] a2 by simp
  moreover have "s3 \<le> s2 + 0.8" using liquidez_le[of fmt k s2 p2 n2] a3 by simp
  moreover have "fst (analise_lucratividade fmt k (s3, p3, n3)) \<le> s3 + 1.0"
    by (rule lucratividade_le)
  ultimately show ?thesis by (simp add: financial_blocks_def a1 a2 a3)
qed

lemma financial_score_le: "fst (analyze_financial_health fmt state) \<le> 9.3"
  using financial_blocks_le[of fmt "last (concat (map financial_kpis (document_analysis state)))"]
  by (auto simp: analyze_financial_health_def Let_def split: prod.splits)

lemma cadastral_le:
  "fst (analise_cadastral fmt now cd (score, pos, neg)) \<le> score + 1.0"
  by (simp add: analise_cadastral_def Let_def split: option.split)

lemma web_le:
  "fst (analise_web results (score, pos, neg)) \<le> score + 1.0"
  by (auto simp: analise_web_def Let_def min_def)

lemma non_financial_blocks_le: "fst (non_financial_blocks fmt now state) \<le> 9.0"
proof -
  obtain s1 p1 n1 where a1: "analise_cadastral fmt now (company_data state) (7, [], []) = (s1, p1, n1)"
    by (cases "analise_cadastral fmt now (company_data state) (7, [], [])")
  have "s1 \<le> 7 + 1.0" using cadastral_le[of fmt now "company_data state" 7 "[]" "[]"] a1 by simp
  moreover have "fst (analise_web (web_search_results state) (s1, p1, n1)) \<le> s1 + 1.0"
    by (rule web_le)
  ultimately show ?thesis by (simp add: non_financial_blocks_def a1)
qed

lemma non_financial_score_le: "fst (analyze_non_financial_risks fmt now state) \<le> 9.0"
  using non_financial_blocks_le[of fmt now state]
  by (auto simp: analyze_non_financial_risks_def split: prod.splits)

lemma financial_score_range:
  "0 \<le> fst (analyze_financial_health fmt state) \<and> fst (analyze_financial_health fmt state) \<le> 10"
  by (auto simp: analyze_financial_health_def Let_def split: prod.splits)

lemma non_financial_score_range:
  "0 \<le> fst (analyze_non_financial_risks fmt now state)
   \<and> fst (analyze_non_financial_risks fmt now state) \<le> 10"
  by (auto simp: analyze_non_financial_risks_def split: prod.splits)

subsection \<open>The Scoring stage\<close>

text \<open>
  The scorers and the confidence level read the registry record, the web results and the
  document analyses, and nothing else of the state.
\<close>

lemma scorers_evidence:
  assumes "company_data t = company_data s"
    and "web_search_results t = web_search_results s"
    and "document_analysis t = document_analysis s"
  shows "analyze_financial_health fmt t = analyze_financial_health fmt s"
    and "analyze_non_financial_risks fmt now t = analyze_non_financial_risks fmt now s"
    and "calculate_confidence_level t = calculate_confidence_level s"
  using assms
  by (simp_all add: analyze_financial_health_def analyze_non_financial_risks_def
      non_financial_blocks_def calculate_confidence_level_def Let_def
      cong: if_cong option.case_cong)

lemma retried_scorers:
  assumes "retried s t"
  shows "analyze_financial_health fmt t = analyze_financial_health fmt s"
    and "analyze_non_financial_risks fmt now t = analyze_non_financial_risks fmt now s"
    and "calculate_confidence_level t = calculate_confidence_level s"
proof -
  from retried_fields[OF assms]
  have e: "company_data t = company_data s" "web_search_results t = web_search_results s"
    "document_analysis t = document_analysis s" by simp_all
  show "analyze_financial_health fmt t = analyze_financial_health fmt s"
    by (rule scorers_evidence(1)[OF e])
  show "analyze_non_financial_risks fmt now t = analyze_non_financial_risks fmt now s"
    by (rule scorers_evidence(2)[OF e])
  show "calculate_confidence_level t = calculate_confidence_level s"
    by (rule scorers_evidence(3)[OF e])
qed

lemma confidence_le_1: "calculate_confidence_level s \<le> 1"
  by (simp add: calculate_confidence_level_def Let_def)

lemma risk_body_Inr:
  assumes "risk_analyst_body ev st = Inr s'"
  shows "\<exists>ra. risk_analysis s' = Some ra
           \<and> financial_health_score ra = fst (analyze_financial_health (format_float ev) st)
           \<and> non_financial_risk_score ra
               = fst (analyze_non_financial_risks (format_float ev) (clock ev) st)
           \<and> overall_risk_score ra
               = fst (analyze_financial_health (format_float ev) st) * 0.7
                 + fst (analyze_non_financial_risks (format_float ev) (clock ev) st) * 0.3
           \<and> positive_factors ra
               = positive (snd (analyze_financial_health (format_float ev) st))
                 @ positive (snd (analyze_non_financial_risks (format_float ev) (clock ev) st))
           \<and> negative_factors ra
               = negative (snd (analyze_financial_health (format_float ev) st))
                 @ negative (snd (analyze_non_financial_risks (format_float ev) (clock ev) st))
           \<and> recommendation ra
               = determine_recommendation (overall_risk_score ra) (financial_health_score ra)
                   (non_financial_risk_score ra)"
  using assms retried_scorers[OF note_retried]
  by (auto simp: risk_analyst_body_def Let_def new_RiskAnalysis_def split: sum.splits if_splits)

lemma risk_body_returns:
  assumes "0 \<le> calculate_confidence_level st"
  shows "\<exists>s'. risk_analyst_body ev st = Inr s'"
proof -
  let ?s1 = "add_processing_note ''RiskAnalyst'' st
              (''Iniciando an'' @ [CHR 0xE1] @ ''lise de risco consolidada'')"
  let ?f = "fst (analyze_financial_health (format_float ev) ?s1)"
  let ?n = "fst (analyze_non_financial_risks (format_float ev) (clock ev) ?s1)"
  have c: "0 \<le> calculate_confidence_level ?s1"
    using assms retried_scorers(3)[OF note_retried] by simp
  have f: "0 \<le> ?f \<and> ?f \<le> 10" by (rule financial_score_range)
  have n: "0 \<le> ?n \<and> ?n \<le> 10" by (rule non_financial_score_range)
  from f n have o: "0 \<le> ?f * 0.7 + ?n * 0.3 \<and> ?f * 0.7 + ?n * 0.3 \<le> 10" by simp
  show ?thesis
    using c f n o confidence_le_1[of ?s1]
    by (simp add: risk_analyst_body_def Let_def new_RiskAnalysis_def)
qed

lemma risk_body_confidence:
  assumes "risk_analyst_body ev st = Inr s'"
  shows "0 \<le> calculate_confidence_level st"
  using assms retried_scorers[OF note_retried]
  by (auto simp: risk_analyst_body_def Let_def new_RiskAnalysis_def split: sum.splits if_splits)

lemma risk_body_evidence:
  assumes "risk_analyst_body ev st = Inr s'"
  shows "company_data s' = company_data st \<and> web_search_results s' = web_search_results st
         \<and> document_analysis s' = document_analysis st \<and> retry_count s' = retry_count st
         \<and> max_retries s' = max_retries st \<and> quality_validation s' = quality_validation st
         \<and> cnpj s' = cnpj st"
  using assms
  by (auto simp: risk_analyst_body_def Let_def split: sum.splits)

text \<open>The state on which the node \<open>risk_analyst\<close> calls the stage.\<close>

lemma risk_node_Inr:
  assumes "risk_analyst_node ev s = Inr s'"
  shows "\<exists>st. risk_analyst_body ev st = Inr s'
            \<and> company_data st = company_data s \<and> web_search_results st = web_search_results s
            \<and> document_analysis st = document_analysis s \<and> max_retries st = max_retries s
            \<and> cnpj st = cnpj s"
proof -
  obtain s1 where s1: "risk_analyst_execute ev s1 = Inr s'"
    and ev1: "company_data s1 = company_data s \<and> web_search_results s1 = web_search_results s
            \<and> document_analysis s1 = document_analysis s \<and> max_retries s1 = max_retries s
            \<and> cnpj s1 = cnpj s"
    using assms
    by (auto simp: risk_analyst_node_def Let_def split: option.splits if_splits)
  from execute_Inr_body(1)[OF s1[unfolded risk_analyst_execute_def]]
  obtain st where st: "risk_analyst_body ev st = Inr s'" "retried s1 st" by blast
  from retried_fields[OF st(2)] ev1 st(1) show ?thesis by auto
qed

lemma risk_node_returns:
  assumes "0 \<le> calculate_confidence_level s"
  shows "\<exists>s'. risk_analyst_node ev s = Inr s'"
proof -
  have "\<And>s1::AgentState. company_data s1 = company_data s \<Longrightarrow> web_search_results s1 = web_search_results s
      \<Longrightarrow> document_analysis s1 = document_analysis s \<Longrightarrow> \<exists>s'. risk_analyst_execute ev s1 = Inr s'"
  proof -
    fix s1 :: AgentState assume e: "company_data s1 = company_data s" "web_search_results s1 = web_search_results s"
      "document_analysis s1 = document_analysis s"
    have "0 \<le> calculate_confidence_level s1" using assms scorers_evidence(3)[OF e] by simp
    from risk_body_returns[OF this, of ev] show "\<exists>s'. risk_analyst_execute ev s1 = Inr s'"
      by (auto simp: risk_analyst_execute_def execute_body_Inr)
  qed
  then show ?thesis
    by (auto simp: risk_analyst_node_def Let_def split: option.splits)
qed

text \<open>
  Claim C9. Two runs of the Scoring stage on states with the same upstream evidence
  (registry record, web results, document analyses), at the same clock reading and with
  the same float printing, give assessments with identical positive-factor lists and
  identical negative-factor lists, whatever the generation service answers in either
  run and whatever else the two states hold; and the second run returns an assessment
  whenever the first does.
\<close>

theorem C9_factor_lists_deterministic:
  assumes "company_data s2 = company_data s1"
    and "web_search_results s2 = web_search_results s1"
    and "document_analysis s2 = document_analysis s1"
    and "format_float ev2 = format_float ev1"
    and "clock ev2 = clock ev1"
    and "risk_analyst_node ev1 s1 = Inr t1"
  shows "\<exists>t2 r1 r2. risk_analyst_node ev2 s2 = Inr t2
           \<and> risk_analysis t1 = Some r1 \<and> risk_analysis t2 = Some r2
           \<and> positive_factors r2 = positive_factors r1
           \<and> negative_factors r2 = negative_factors r1"
proof -
  from risk_node_Inr[OF assms(6)] obtain st1 where st1: "risk_analyst_body ev1 st1 = Inr t1"
    and e1: "company_data st1 = company_data s1" "web_search_results st1 = web_search_results s1"
      "document_analysis st1 = document_analysis s1" by blast
  have "0 \<le> calculate_confidence_level st1" using st1 by (rule risk_body_confidence)
  then have "0 \<le> calculate_confidence_level s2"
    using scorers_evidence(3)[OF e1] scorers_evidence(3)[OF assms(1-3)] by simp
  from risk_node_returns[OF this, of ev2] obtain t2 where t2: "risk_analyst_node ev2 s2 = Inr t2"
    by blast
  from risk_node_Inr[OF t2] obtain st2 where st2: "risk_analyst_body ev2 st2 = Inr t2"
    and e2: "company_data st2 = company_data s2" "web_search_results st2 = web_search_results s2"
      "document_analysis st2 = document_analysis s2" by blast
  from risk_body_Inr[OF st1] obtain r1 where r1: "risk_analysis t1 = Some r1"
    "positive_factors r1
       = positive (snd (analyze_financial_health (format_float ev1) st1))
         @ positive (snd (analyze_non_financial_risks (format_float ev1) (clock ev1) st1))"
    "negative_factors r1
       = negative (snd (analyze_financial_health (format_float ev1) st1))
         @ negative (snd (analyze_non_financial_risks (format_float ev1) (clock ev1) st1))"
    by blast
  from risk_body_Inr[OF st2] obtain r2 where r2: "risk_analysis t2 = Some r2"
    "positive_factors r2
       = positive (snd (analyze_financial_health (format_float ev2) st2))
         @ positive (snd (analyze_non_financial_risks (format_float ev2) (clock ev2) st2))"
    "negative_factors r2
       = negative (snd (analyze_financial_health (format_float ev2) st2))
         @ negative (snd (analyze_non_financial_risks (format_float ev2) (clock ev2) st2))"
    by blast
  have same: "company_data st2 = company_data st1" "web_search_results st2 = web_search_results st1"
    "document_analysis st2 = document_analysis st1"
    using e1 e2 assms(1-3) by simp_all
  have "positive_factors r2 = positive_factors r1" "negative_factors r2 = negative_factors r1"
    using r1 r2 scorers_evidence(1,2)[OF same] assms(4,5) by simp_all
  with t2 r1(1) r2(1) show ?thesis by blast
qed

text \<open>
  The stage run twice in a row from the fresh state, the service down in the first run and
  answering in the second: both runs return, with the same factor lists.
\<close>

theorem C9_factor_lists_deterministic_witness:
  "\<exists>t1 t2 r1 r2.
      risk_analyst_node offline_env sample_state = Inr t1
      \<and> risk_analyst_node
            (offline_env\<lparr>narrative_service := (\<lambda>state fs nfs. Some ''Texto gerado.'')\<rparr>) t1 = Inr t2
      \<and> risk_analysis t1 = Some r1 \<and> risk_analysis t2 = Some r2
      \<and> positive_factors r2 = positive_factors r1
      \<and> negative_factors r2 = negative_factors r1"
proof -
  let ?ev2 = "offline_env\<lparr>narrative_service := (\<lambda>state fs nfs. Some ''Texto gerado.'')\<rparr>"
  have "0 \<le> calculate_confidence_level sample_state"
    by (simp add: calculate_confidence_level_def sample_state_def)
  from risk_node_returns[OF this, of offline_env]
  obtain t1 where t1: "risk_analyst_node offline_env sample_state = Inr t1" by blast
  from risk_node_Inr[OF t1] obtain st where st: "risk_analyst_body offline_env st = Inr t1"
    and e: "company_data st = company_data sample_state"
      "web_search_results st = web_search_results sample_state"
      "document_analysis st = document_analysis sample_state" by blast
  from risk_body_evidence[OF st] e
  have e1: "company_data t1 = company_data sample_state"
    "web_search_results t1 = web_search_results sample_state"
    "document_analysis t1 = document_analysis sample_state" by simp_all
  have f: "format_float ?ev2 = format_float offline_env" "clock ?ev2 = clock offline_env"
    by simp_all
  from C9_factor_lists_deterministic[OF e1 f t1] t1 show ?thesis by blast
qed

text \<open>
  Claim C10. The financial sub-score is at most 9.3 (5.0 + 1.5 + 1.0 + 0.8 + 1.0) and the
  non-financial sub-score at most 9.0 (7.0 + 1.0 + 1.0), for every state; so the overall
  score 0.7 financial + 0.3 non-financial is at most 9.21, also in the assessment the
  Scoring stage stores. The value that reaches the final clamp is already below 10 in
  both scorers, so the upper clamp never changes it.
\<close>

theorem C10_score_bounds:
  "fst (analyze_financial_health fmt state) \<le> 9.3
   \<and> fst (analyze_non_financial_risks fmt now state) \<le> 9.0
   \<and> fst (analyze_financial_health fmt state) * 0.7
       + fst (analyze_non_financial_risks fmt now state) * 0.3 \<le> 9.21
   \<and> min 10 (fst (financial_blocks fmt k)) = fst (financial_blocks fmt k)
   \<and> min 10 (fst (non_financial_blocks fmt now state)) = fst (non_financial_blocks fmt now state)
   \<and> (\<forall>s' ra. risk_analyst_node ev state = Inr s' \<longrightarrow> risk_analysis s' = Some ra
         \<longrightarrow> financial_health_score ra \<le> 9.3 \<and> non_financial_risk_score ra \<le> 9.0
             \<and> overall_risk_score ra \<le> 9.21)"
proof (intro conjI allI impI)
  show f: "fst (analyze_financial_health fmt state) \<le> 9.3" by (rule financial_score_le)
  show n: "fst (analyze_non_financial_risks fmt now state) \<le> 9.0"
    by (rule non_financial_score_le)
  from f n show "fst (analyze_financial_health fmt state) * 0.7
       + fst (analyze_non_financial_risks fmt now state) * 0.3 \<le> 9.21" by simp
  show "min 10 (fst (financial_blocks fmt k)) = fst (financial_blocks fmt k)"
    using financial_blocks_le[of fmt k] by simp
  show "min 10 (fst (non_financial_blocks fmt now state)) = fst (non_financial_blocks fmt now state)"
    using non_financial_blocks_le[of fmt now state] by simp
next
  fix s' ra
  assume run: "risk_analyst_node ev state = Inr s'" and ra: "risk_analysis s' = Some ra"
  from risk_node_Inr[OF run] obtain st where st: "risk_analyst_body ev st = Inr s'" by blast
  from risk_body_Inr[OF st] ra
  have fs: "financial_health_score ra = fst (analyze_financial_health (format_float ev) st)"
    and ns: "non_financial_risk_score ra
               = fst (analyze_non_financial_risks (format_float ev) (clock ev) st)"
    and os: "overall_risk_score ra
               = fst (analyze_financial_health (format_float ev) st) * 0.7
                 + fst (analyze_non_financial_risks (format_float ev) (clock ev) st) * 0.3"
    by auto
  have f: "fst (analyze_financial_health (format_float ev) st) \<le> 9.3"
    by (rule financial_score_le)
  have n: "fst (analyze_non_financial_risks (format_float ev) (clock ev) st) \<le> 9.0"
    by (rule non_financial_score_le)
  from f fs show "financial_health_score ra \<le> 9.3" by simp
  from n ns show "non_financial_risk_score ra \<le> 9.0" by simp
  from f n os show "overall_risk_score ra \<le> 9.21" by simp
qed

text \<open>
  At the snapshot with every indicator in its best band the financial sub-score is
  exactly 9.3, and the Scoring stage returns an assessment within the bound.
\<close>

theorem C10_score_bounds_witness:
  "fst (analyze_financial_health decimal_fmt (state_with_kpi best_kpi)) = 9.3
   \<and> fst (analyze_financial_health decimal_fmt (state_with_kpi best_kpi)) \<le> 9.3
   \<and> fst (analyze_non_financial_risks decimal_fmt 0 (state_with_kpi best_kpi)) \<le> 9.0
   \<and> (\<exists>s' ra. risk_analyst_node offline_env (state_with_kpi best_kpi) = Inr s'
          \<and> risk_analysis s' = Some ra \<and> overall_risk_score ra \<le> 9.21)"
proof -
  have v: "fst (analyze_financial_health decimal_fmt (state_with_kpi best_kpi)) = 9.3"
    by (simp add: analyze_financial_health_def state_with_kpi_def best_kpi_def
      sample_state_def financial_blocks_def analise_rentabilidade_def
      analise_endividamento_def analise_liquidez_def analise_lucratividade_def truthy_def)
  have "0 \<le> calculate_confidence_level (state_with_kpi best_kpi)"
    by (simp add: calculate_confidence_level_def state_with_kpi_def sample_state_def)
  from risk_node_returns[OF this, of offline_env]
  obtain s' where s: "risk_analyst_node offline_env (state_with_kpi best_kpi) = Inr s'" by blast
  from risk_node_Inr[OF s] obtain st where "risk_analyst_body offline_env st = Inr s'" by blast
  from risk_body_Inr[OF this] obtain ra where ra: "risk_analysis s' = Some ra" by blast
  from C10_score_bounds[of decimal_fmt "state_with_kpi best_kpi" 0 best_kpi offline_env] v s ra
  show ?thesis by blast
qed

subsection \<open>Non-Financial Risk Scorer\<close>

lemma lower_ativa: "lower ''ATIVA'' = ''ativa''"
  by code_simp

text \<open>
  Claim C7. With no web-search results and a registry record whose legal status contains
  the marker \<open>ativa\<close> and whose registration lies at least 1825 days back (five years
  of 365 days, which covers a date six years in the past), the Non-Financial Risk Scorer
  returns the score 8.0, that is 7.0 plus 1.0 for longevity, and an empty negative list.
  The scorer returns nothing but the score and the two lists, so the positive note on the
  active status and the longevity factor are the two entries of the positive list, in
  this order: one note that leaves the score alone and one factor that adds to it.
\<close>

theorem C7_active_six_years:
  assumes "web_search_results state = []"
    and "company_data state = Some company"
    and "legal_situation company = Some ls"
    and "py_in ''ativa'' (lower ls)"
    and "registration_date company = Some reg"
    and "1825 \<le> days_between now reg"
  shows "analyze_non_financial_risks fmt now state =
           (8.0,
            \<lparr>positive =
               [''Empresa com situa'' @ [CHR 0xE7, CHR 0xE3] @ ''o cadastral ativa'',
                ''Empresa estabelecida: '' @ fmt (Some 1) (real_of_int (days_between now reg) / 365)
                  @ '' anos de opera'' @ [CHR 0xE7, CHR 0xE3] @ ''o''],
             negative = []\<rparr>)"
proof -
  have ne: "ls \<noteq> []" using assms(4) by (cases ls) (auto simp: lower_def)
  have y: "5 \<le> real_of_int (days_between now reg) / 365" using assms(6) by simp
  have c: "count_mentions kws [] = 0" for kws by (simp add: count_mentions_def)
  show ?thesis
    using assms(1-5) ne y
    by (simp add: analyze_non_financial_risks_def non_financial_blocks_def
        analise_cadastral_def analise_web_def Let_def c)
qed

theorem C7_active_six_years_witness:
  "analyze_non_financial_risks decimal_fmt (2191 * 86400000000)
     (sample_state\<lparr>company_data := Some six_year_company\<rparr>) =
     (8.0,
      \<lparr>positive =
         [''Empresa com situa'' @ [CHR 0xE7, CHR 0xE3] @ ''o cadastral ativa'',
          ''Empresa estabelecida: '' @ decimal_fmt (Some 1) (2191 / 365)
            @ '' anos de opera'' @ [CHR 0xE7, CHR 0xE3] @ ''o''],
       negative = []\<rparr>)"
  using C7_active_six_years [of "sample_state\<lparr>company_data := Some six_year_company\<rparr>"
      six_year_company "''ATIVA''" 0 "2191 * 86400000000" decimal_fmt]
  by (simp add: sample_state_def six_year_company_def lower_ativa days_between_def)

subsection \<open>One pass through the Scoring and Validating cycle\<close>

lemma qa_body_evidence:
  assumes "quality_assurance_body ev st = Inr s'"
  shows "company_data s' = company_data st \<and> web_search_results s' = web_search_results st
         \<and> document_analysis s' = document_analysis st \<and> retry_count s' = retry_count st
         \<and> max_retries s' = max_retries st \<and> cnpj s' = cnpj st
         \<and> risk_analysis s' = risk_analysis st"
  using assms
  by (auto simp: quality_assurance_body_def Let_def split: sum.splits if_splits)

lemma risk_body_text:
  assumes "risk_analyst_body ev st = Inr s'"
  shows "\<exists>ra. risk_analysis s' = Some ra
           \<and> analysis_text ra
               = generate_detailed_analysis ev
                   (add_processing_note ''RiskAnalyst'' st
                      (''Iniciando an'' @ [CHR 0xE1] @ ''lise de risco consolidada''))
                   (financial_health_score ra) (non_financial_risk_score ra)"
  using assms
  by (auto simp: risk_analyst_body_def Let_def new_RiskAnalysis_def split: sum.splits if_splits)

text \<open>The node \<open>risk_analyst\<close> when the stage succeeds at its first attempt.\<close>

lemma risk_node_first_try:
  assumes "0 \<le> calculate_confidence_level s"
  shows "\<exists>s1 t. risk_analyst_node ev s = Inr t \<and> risk_analyst_body ev s1 = Inr t
           \<and> company_data s1 = company_data s \<and> web_search_results s1 = web_search_results s
           \<and> document_analysis s1 = document_analysis s \<and> retry_count s1 = retry_count s
           \<and> max_retries s1 = max_retries s \<and> cnpj s1 = cnpj s"
proof -
  obtain s1 :: AgentState where node: "risk_analyst_node ev s = risk_analyst_execute ev s1"
    and e: "company_data s1 = company_data s" "web_search_results s1 = web_search_results s"
      "document_analysis s1 = document_analysis s"
    and r: "retry_count s1 = retry_count s" "max_retries s1 = max_retries s" "cnpj s1 = cnpj s"
    by (auto simp: risk_analyst_node_def Let_def split: option.splits)
  have "0 \<le> calculate_confidence_level s1" using assms scorers_evidence(3)[OF e] by simp
  from risk_body_returns[OF this, of ev] obtain t where t: "risk_analyst_body ev s1 = Inr t"
    by blast
  then have "risk_analyst_node ev s = Inr t"
    by (simp add: node risk_analyst_execute_def execute_body_Inr)
  with t e r show ?thesis by blast
qed

lemma status_three_down:
  assumes "\<not> truth (get checks ''company_data_available'' False)"
    and "\<not> truth (get checks ''cnpj_consistency'' False)"
    and "\<not> truth (get checks ''analysis_text_quality'' False)"
  shows "determine_quality_status checks = REJECTED"
  using assms
  by (auto simp: determine_quality_status_def critical_checks_def important_checks_def Let_def)

lemma checks_get_important:
  "get (perform_consistency_checks s) ''company_data_available'' False
     = PBool (company_data s \<noteq> None)"
  "company_data s = None \<Longrightarrow>
     get (perform_consistency_checks s) ''cnpj_consistency'' False = PBool False"
  "get (perform_consistency_checks s) ''analysis_text_quality'' False
     = check_analysis_text_quality s"
  by (simp_all add: perform_consistency_checks_def get_simps)

lemma short_text_quality:
  assumes "risk_analysis s = Some ra" and "length (analysis_text ra) < 100"
  shows "check_analysis_text_quality s = PBool False"
  using assms by (simp add: check_analysis_text_quality_def Let_def)

subsection \<open>The retry loop of the Orchestrator\<close>

lemma rejected_pass:
  assumes inv: "company_data s = None" "document_analysis s = []" "web_search_results s = []"
      "retry_count s < max_retries s"
    and terse: "\<And>st fs ns. \<exists>t. narrative_service ev st fs ns = Some t \<and> length t < 100"
  shows "\<exists>s1 s2 qv. risk_analyst_node ev s = Inr s1 \<and> quality_assurance_node ev s1 = Inr s2
           \<and> quality_validation s2 = Some qv \<and> status qv = REJECTED
           \<and> should_retry_analysis s2 = ''retry''
           \<and> company_data s2 = None \<and> document_analysis s2 = [] \<and> web_search_results s2 = []
           \<and> retry_count s2 = retry_count s \<and> max_retries s2 = max_retries s"
proof -
  have "0 \<le> calculate_confidence_level s"
    using inv(1-3) by (simp add: calculate_confidence_level_def)
  from risk_node_first_try[OF this, of ev]
  obtain st s1 where node: "risk_analyst_node ev s = Inr s1"
    and body: "risk_analyst_body ev st = Inr s1"
    and st: "company_data st = company_data s" "web_search_results st = web_search_results s"
      "document_analysis st = document_analysis s" "retry_count st = retry_count s"
      "max_retries st = max_retries s" by blast
  from risk_body_evidence[OF body] st inv
  have s1: "company_data s1 = None" "document_analysis s1 = []" "web_search_results s1 = []"
    "retry_count s1 = retry_count s" "max_retries s1 = max_retries s" by simp_all
  from risk_body_text[OF body] obtain ra where ra: "risk_analysis s1 = Some ra"
    and narr: "analysis_text ra
               = generate_detailed_analysis ev
                   (add_processing_note ''RiskAnalyst'' st
                      (''Iniciando an'' @ [CHR 0xE1] @ ''lise de risco consolidada''))
                   (financial_health_score ra) (non_financial_risk_score ra)" by blast
  from terse[of "add_processing_note ''RiskAnalyst'' st
                      (''Iniciando an'' @ [CHR 0xE1] @ ''lise de risco consolidada'')"
                "financial_health_score ra" "non_financial_risk_score ra"] narr
  have short: "length (analysis_text ra) < 100"
    by (auto simp: generate_detailed_analysis_def)
  have tq: "check_analysis_text_quality s1 = PBool False"
    using ra short by (rule short_text_quality)
  have ne: "risk_analysis s1 \<noteq> None" using ra by simp
  have "is_bool (check_analysis_text_quality s1)" by (simp add: tq is_bool_def)
  from qa_body_returns[OF ne this, of ev]
  obtain s2 where qbody: "quality_assurance_body ev s1 = Inr s2" by blast
  then have qnode: "quality_assurance_node ev s1 = Inr s2"
    by (simp add: quality_assurance_node_def quality_assurance_execute_def execute_body_Inr)
  from qa_body_report[OF qbody ne] obtain qv where qv: "quality_validation s2 = Some qv"
    "status qv = determine_quality_status (perform_consistency_checks s1)" by blast
  have "determine_quality_status (perform_consistency_checks s1) = REJECTED"
    by (rule status_three_down) (simp_all add: checks_get_important s1 tq)
  with qv have rej: "status qv = REJECTED" by simp
  from qa_body_evidence[OF qbody] s1
  have s2: "company_data s2 = None" "document_analysis s2 = []" "web_search_results s2 = []"
    "retry_count s2 = retry_count s" "max_retries s2 = max_retries s" by simp_all
  have "should_retry_analysis s2 = ''retry''"
    using qv(1) rej s2(4,5) inv(4) by (simp add: should_retry_analysis_def)
  with node qnode qv(1) rej s2 show ?thesis by blast
qed

text \<open>
  Claim C1 asks that with ceiling 3 and a Quality Gate that rejects on every pass the
  Orchestrator makes exactly 4 Scoring passes and then returns, and in general never more
  than ceiling + 1. The conditional edge compares \<open>retry_count\<close> with \<open>max_retries\<close>, but
  nothing on the path of a pipeline-level retry increments \<open>retry_count\<close>. So for a
  request with no registry record, no documents and no web results, and a narrative
  shorter than 100 characters in every pass, the Gate rejects every pass and the cycle
  never ends by itself: whatever number of passes the graph engine allows, all of them
  are Scoring passes, the run is stopped by the engine, and the counter still has its
  initial value.
\<close>

theorem C1_rejecting_gate_never_finishes:
  assumes "company_data s = None" and "document_analysis s = []"
    and "web_search_results s = []" and "retry_count s < max_retries s"
    and "\<And>i st fs ns. \<exists>t. narrative_service (envs i) st fs ns = Some t \<and> length t < 100"
  shows "\<exists>s'. scoring_cycle n envs passes s = (StepLimit s', passes + n)
              \<and> retry_count s' = retry_count s"
  using assms(1-4)
proof (induction n arbitrary: passes s)
  case 0
  then show ?case by simp
next
  case (Suc n)
  from rejected_pass[OF Suc.prems assms(5)[of passes]]
  obtain s1 s2 where p: "risk_analyst_node (envs passes) s = Inr s1"
    "quality_assurance_node (envs passes) s1 = Inr s2"
    "should_retry_analysis s2 = ''retry''"
    "company_data s2 = None" "document_analysis s2 = []" "web_search_results s2 = []"
    "retry_count s2 = retry_count s" "max_retries s2 = max_retries s" by blast
  have "retry_count s2 < max_retries s2" using p(7,8) Suc.prems(4) by simp
  from Suc.IH[OF p(4-6) this, of "Suc passes"]
  obtain s' where "scoring_cycle n envs (Suc passes) s2 = (StepLimit s', Suc passes + n)"
    "retry_count s' = retry_count s2" by blast
  with p show ?case by simp
qed

text \<open>
  With the ceiling 3 of the fresh state and an engine that allows five passes, the fifth
  Scoring pass takes place and the retry counter is still 0.
\<close>

theorem C1_rejecting_gate_never_finishes_witness:
  "\<exists>s'. scoring_cycle 5 (\<lambda>i. terse_env) 0 sample_state = (StepLimit s', 5)
        \<and> retry_count s' = 0 \<and> max_retries sample_state = 3"
  using C1_rejecting_gate_never_finishes [of sample_state "\<lambda>i. terse_env" 5 0]
  by (simp add: sample_state_def terse_env_def offline_env_def)

subsection \<open>The retry counter\<close>








subsection \<open>The status the Quality Gate reports\<close>

lemma retried_text_quality:
  "retried s t \<Longrightarrow> check_analysis_text_quality t = check_analysis_text_quality s"
  by (drule retried_fields)
     (simp add: check_analysis_text_quality_def Let_def cong: option.case_cong if_cong)

lemma retried_trans:
  assumes "retried s t" and "retried t u"
  shows "retried s u"
proof -
  from assms(1) obtain ns c where t: "t = s\<lparr>processing_notes := ns, retry_count := c\<rparr>"
    unfolding retried_def by blast
  from assms(2) obtain ns' c' where u: "u = t\<lparr>processing_notes := ns', retry_count := c'\<rparr>"
    unfolding retried_def by blast
  show ?thesis by (simp add: retried_def t u)
qed

text \<open>A stage whose body raises the same error on every retry ends with that error.\<close>

lemma execute_always_fails:
  "(\<And>st. retried state st \<Longrightarrow> \<exists>ns. b st = Inl (err, ns))
     \<Longrightarrow> \<exists>s'. execute name se b state = Inl (err, s') \<and> retried state s'"
  "(\<And>st. retried state st \<Longrightarrow> \<exists>ns. b st = Inl (err, ns)) \<Longrightarrow> e = err
     \<Longrightarrow> \<exists>s'. handle_error name se b state e = Inl (err, s') \<and> retried state s'"
proof (induction name se b state and name se b state e rule: execute_handle_error.induct)
  case (1 name se b state)
  from 1(2)[OF retried_refl] obtain ns where f: "b state = Inl (err, ns)" by blast
  have r0: "retried state (state\<lparr>processing_notes := ns\<rparr>)" by (simp add: retried_def)
  have "\<And>st. retried (state\<lparr>processing_notes := ns\<rparr>) st \<Longrightarrow> \<exists>ns. b st = Inl (err, ns)"
    using 1(2) retried_trans[OF r0] by blast
  from 1(1)[OF f refl this refl]
  obtain s' where "handle_error name se b (state\<lparr>processing_notes := ns\<rparr>) err = Inl (err, s')"
    "retried (state\<lparr>processing_notes := ns\<rparr>) s'" by blast
  with f r0 show ?case by (auto simp: execute.simps intro: retried_trans)
next
  case (2 name se b state e)
  let ?s1 = "add_processing_note name state (''Erro no agente '' @ name @ '': '' @ se e)"
  have r1: "retried state ?s1" by (rule note_retried)
  show ?case
  proof (cases "should_retry ?s1")
    case False
    with 2(3) r1 show ?thesis by (auto simp: handle_error.simps Let_def)
  next
    case True
    have r2: "retried state (increment_retry name ?s1)"
      by (simp add: retried_def increment_retry_def add_processing_note_def Let_def)
    have "\<And>st. retried (increment_retry name ?s1) st \<Longrightarrow> \<exists>ns. b st = Inl (err, ns)"
      using 2(2) retried_trans[OF r2] by blast
    from 2(1)[OF refl True this]
    obtain s' where "execute name se b (increment_retry name ?s1) = Inl (err, s')"
      "retried (increment_retry name ?s1) s'" by blast
    with True r2 show ?thesis by (auto simp: handle_error.simps Let_def intro: retried_trans)
  qed
qed

lemma qa_body_fails:
  assumes "risk_analysis st \<noteq> None" and "\<not> is_bool (check_analysis_text_quality st)"
  shows "\<exists>ns. quality_assurance_body ev st = Inl (TypeError, ns)"
proof -
  let ?s1 = "add_processing_note ''QualityAssurance'' st
              (''Iniciando valida'' @ [CHR 0xE7, CHR 0xE3] @ ''o de qualidade'')"
  have "perform_consistency_checks ?s1 = perform_consistency_checks st"
    by (rule retried_checks[OF note_retried])
  then have "\<not> list_all is_bool (map snd (perform_consistency_checks ?s1))"
    using assms(2) by (simp add: checks_all_bool)
  then show ?thesis using assms(1)
    by (simp add: quality_assurance_body_def Let_def generate_validation_notes_def)
qed

text \<open>
  Claim C5 gives the Gate's status for every state whose three critical checks pass:
  Rejected exactly when more than half of the four important checks fail, that is three
  or four of them, and Approved with two or fewer. The Gate resolves the status by this
  rule, and returns it in its report, on every such state whose narrative-quality check
  yields a bool. On the other ones that check is \<open>None\<close> or an empty string (a narrative
  that is long enough and does not show the tax identifier, with no registry record or
  with an empty corporate name): the sum over the checks in the validation notes raises
  a \<open>TypeError\<close>, each stage-local retry raises it again, and the Gate ends with that
  error and without a report, whatever the number of failed important checks.
\<close>

theorem C5_status_or_type_error:
  assumes "risk_analysis state = Some ra"
    and "0 \<le> financial_health_score ra \<and> financial_health_score ra \<le> 10
         \<and> 0 \<le> non_financial_risk_score ra \<and> non_financial_risk_score ra \<le> 10
         \<and> 0 \<le> overall_risk_score ra \<and> overall_risk_score ra \<le> 10"
    and "check_recommendation_logic state"
  shows "(is_bool (check_analysis_text_quality state) \<longrightarrow>
            (\<exists>s' qv. quality_assurance_execute ev state = Inr s'
                \<and> quality_validation s' = Some qv
                \<and> status qv = (if 2 < failed_important state then REJECTED else APPROVED)))
         \<and> (\<not> is_bool (check_analysis_text_quality state) \<longrightarrow>
            (\<exists>s'. quality_assurance_execute ev state = Inl (TypeError, s')
                \<and> quality_validation s' = quality_validation state))"
proof (intro conjI impI)
  assume tb: "is_bool (check_analysis_text_quality state)"
  from assms(1) have ne: "risk_analysis state \<noteq> None" by simp
  from qa_body_returns[OF ne tb, of ev]
  obtain s' where body: "quality_assurance_body ev state = Inr s'" by blast
  from qa_body_report[OF body ne]
  obtain qv where qv: "quality_validation s' = Some qv"
    "status qv = determine_quality_status (perform_consistency_checks state)" by blast
  have "determine_quality_status (perform_consistency_checks state)
          = (if 2 < failed_important state then REJECTED else APPROVED)"
    unfolding failed_important_def
    using assms by (intro status_majority) (simp_all add: checks_get)
  with qv body show "\<exists>s' qv. quality_assurance_execute ev state = Inr s'
                \<and> quality_validation s' = Some qv
                \<and> status qv = (if 2 < failed_important state then REJECTED else APPROVED)"
    by (auto simp: quality_assurance_execute_def execute_body_Inr)
next
  assume nb: "\<not> is_bool (check_analysis_text_quality state)"
  have "\<And>st. retried state st \<Longrightarrow> \<exists>ns. quality_assurance_body ev st = Inl (TypeError, ns)"
  proof -
    fix st assume r: "retried state st"
    from retried_fields[OF r] assms(1) have "risk_analysis st \<noteq> None" by simp
    moreover have "\<not> is_bool (check_analysis_text_quality st)"
      using nb retried_text_quality[OF r] by simp
    ultimately show "\<exists>ns. quality_assurance_body ev st = Inl (TypeError, ns)"
      by (rule qa_body_fails)
  qed
  from execute_always_fails(1)[of state "quality_assurance_body ev" TypeError
      "''QualityAssurance''" "str_exc ev", OF this]
  obtain s' where "quality_assurance_execute ev state = Inl (TypeError, s')" "retried state s'"
    by (auto simp: quality_assurance_execute_def)
  with retried_fields[of state s']
  show "\<exists>s'. quality_assurance_execute ev state = Inl (TypeError, s')
                \<and> quality_validation s' = quality_validation state" by auto
qed

text \<open>
  The fresh state with the stage's own assessment. With a short narrative three
  important checks fail and the report is Rejected; with a narrative that shows the tax
  identifier two fail and the report is Approved; with the templated narrative three
  fail and the Gate raises instead of reporting.
\<close>

lemma no_document_factor:
  "\<not> py_in ''roa'' (lower ''Nenhum documento financeiro analisado'')
   \<and> \<not> py_in ''endividamento'' (lower ''Nenhum documento financeiro analisado'')
   \<and> \<not> py_in ''liquidez'' (lower ''Nenhum documento financeiro analisado'')
   \<and> \<not> py_in ''processo'' (lower ''Nenhum documento financeiro analisado'')
   \<and> \<not> py_in ''legal'' (lower ''Nenhum documento financeiro analisado'')"
  by code_simp

lemma narrated_checks:
  "risk_analysis (sample_state\<lparr>risk_analysis := Some (narrated t)\<rparr>) = Some (narrated t)"
  "check_recommendation_logic (sample_state\<lparr>risk_analysis := Some (narrated t)\<rparr>)"
  "check_factors_evidence (sample_state\<lparr>risk_analysis := Some (narrated t)\<rparr>)"
  "failed_important (sample_state\<lparr>risk_analysis := Some (narrated t)\<rparr>)
     = (if truth (check_analysis_text_quality (sample_state\<lparr>risk_analysis := Some (narrated t)\<rparr>))
        then 2 else 3)"
  by (simp_all add: check_recommendation_logic_def check_factors_evidence_def narrated_def
      no_document_factor failed_important_def important_checks_def perform_consistency_checks_def
      get_simps sample_state_def)

lemma narrated_text_quality:
  "check_analysis_text_quality (sample_state\<lparr>risk_analysis := Some (narrated ''Sem dados.'')\<rparr>)
     = PBool False"
  "check_analysis_text_quality
     (sample_state\<lparr>risk_analysis := Some (narrated (fallback_text @ '' CNPJ 11222333000181.''))\<rparr>)
     = PBool True"
  "check_analysis_text_quality (sample_state\<lparr>risk_analysis := Some (narrated fallback_text)\<rparr>)
     = PNone"
  by (simp_all add: check_analysis_text_quality_def narrated_def fallback_text_def sample_state_def)

theorem C5_status_or_type_error_witness:
  "(\<exists>s' qv. quality_assurance_execute offline_env
                (sample_state\<lparr>risk_analysis := Some (narrated ''Sem dados.'')\<rparr>) = Inr s'
       \<and> quality_validation s' = Some qv \<and> status qv = REJECTED)
   \<and> (\<exists>s' qv. quality_assurance_execute offline_env
                (sample_state\<lparr>risk_analysis :=
                    Some (narrated (fallback_text @ '' CNPJ 11222333000181.''))\<rparr>) = Inr s'
       \<and> quality_validation s' = Some qv \<and> status qv = APPROVED)
   \<and> failed_important (sample_state\<lparr>risk_analysis := Some (narrated fallback_text)\<rparr>) = 3
   \<and> (\<exists>s'. quality_assurance_execute offline_env
                (sample_state\<lparr>risk_analysis := Some (narrated fallback_text)\<rparr>)
              = Inl (TypeError, s')
       \<and> quality_validation s' = None)"
  using C5_status_or_type_error
      [of "sample_state\<lparr>risk_analysis := Some (narrated ''Sem dados.'')\<rparr>"
          "narrated ''Sem dados.''" offline_env]
    C5_status_or_type_error
      [of "sample_state\<lparr>risk_analysis :=
              Some (narrated (fallback_text @ '' CNPJ 11222333000181.''))\<rparr>"
          "narrated (fallback_text @ '' CNPJ 11222333000181.'')" offline_env]
    C5_status_or_type_error
      [of "sample_state\<lparr>risk_analysis := Some (narrated fallback_text)\<rparr>"
          "narrated fallback_text" offline_env]
  by (simp add: narrated_checks narrated_text_quality is_bool_def)
     (simp add: narrated_def sample_state_def)

end
